theory Spec2Isabelle
  imports Complex_Main "HOL-Library.Log_Nat" "HOL-Library.Sublist"
begin

section \<open>Python values and exceptions\<close>

text \<open>
  The exceptions the modelled code can raise. A function that can raise returns
  \<open>py_error + 'a\<close>, with \<open>Inl\<close> for the exception.
\<close>

datatype py_error =
    NameError | KeyError | TypeError | OverflowError | UnboundLocalError | FileNotFoundError

text \<open>
  A Python number is an unbounded \<open>int\<close> or a \<open>float\<close>. A finite float is modelled by
  the rational it denotes; infinities, NaN and the negative zero have no counterpart.
  \<open>hsize\<close> only divides by \<open>1024.0\<close> a value of magnitude at least 1024, which is exact in
  binary floating point, so no rounding happens after the conversion of the argument.
\<close>

datatype num = PyInt int | PyFloat rat

text \<open>
  \<open>float(n)\<close> for an int, as CPython converts it: exact up to 53 significant bits, rounded
  half to even beyond, and \<open>OverflowError\<close> when the rounded value does not fit a double.
\<close>

definition round_to_double :: "int \<Rightarrow> int" where
  "round_to_double a =
    (let e = bitlen a - 53 in
     if e \<le> 0 then a
     else
       let p = 2 ^ nat e; q = a div p; r = a mod p; h = p div 2
       in (if h < r \<or> (r = h \<and> odd q) then q + 1 else q) * p)"

definition py_float :: "int \<Rightarrow> py_error + rat" where
  "py_float n =
    (let m = round_to_double \<bar>n\<bar> in
     if 2 ^ 1024 \<le> m then Inl OverflowError else Inr (of_int (sgn n * m)))"

text \<open>\<open>abs(fsize) < 1024.0\<close>: Python compares an int with a float exactly.\<close>

fun py_abs_lt :: "num \<Rightarrow> rat \<Rightarrow> bool" where
  "py_abs_lt (PyInt n) b = (of_int \<bar>n\<bar> < b)"
| "py_abs_lt (PyFloat x) b = (\<bar>x\<bar> < b)"

text \<open>\<open>fsize / 1024.0\<close>: an int operand is converted to float first.\<close>

fun py_truediv :: "num \<Rightarrow> rat \<Rightarrow> py_error + num" where
  "py_truediv (PyInt n) d = (case py_float n of Inl e \<Rightarrow> Inl e | Inr x \<Rightarrow> Inr (PyFloat (x / d)))"
| "py_truediv (PyFloat x) d = Inr (PyFloat (x / d))"

subsection \<open>The format specification \<open>3.0f\<close>\<close>

definition digit_char :: "nat \<Rightarrow> char" where
  "digit_char d = char_of (48 + d)"

fun digits :: "nat \<Rightarrow> string" where
  "digits n = (if n < 10 then [digit_char n] else digits (n div 10) @ [digit_char (n mod 10)])"

declare digits.simps [simp del]

text \<open>For the statement that \<open>digits\<close> writes a number in decimal: the number a text denotes.\<close>

definition decimal_value :: "string \<Rightarrow> nat" where
  "decimal_value s = foldl (\<lambda>a c. 10 * a + (of_char c - 48)) 0 s"

text \<open>Rounding to zero decimals is to the nearest integer, a tie going to the even one.\<close>

definition round_half_even :: "rat \<Rightarrow> int" where
  "round_half_even x =
    (let f = \<lfloor>x\<rfloor>; d = x - of_int f in
     if d < 1 / 2 then f else if d > 1 / 2 then f + 1 else if even f then f else f + 1)"

definition rjust :: "nat \<Rightarrow> string \<Rightarrow> string" where
  "rjust w s = replicate (w - length s) CHR '' '' @ s"

definition format_3_0f_float :: "rat \<Rightarrow> string" where
  "format_3_0f_float x =
     rjust 3 ((if x < 0 then ''-'' else '''') @ digits (nat (round_half_even \<bar>x\<bar>)))"

text \<open>An int formatted with presentation type \<open>f\<close> is converted to float first.\<close>

fun format_3_0f :: "num \<Rightarrow> py_error + string" where
  "format_3_0f (PyInt n) =
     (case py_float n of Inl e \<Rightarrow> Inl e | Inr x \<Rightarrow> Inr (format_3_0f_float x))"
| "format_3_0f (PyFloat x) = Inr (format_3_0f_float x)"

section \<open>lib.py: human size\<close>

definition suffix_Bytes :: string where
  "suffix_Bytes = ''Bytes''"

definition hsize_units :: "string list" where
  "hsize_units = ['' '', ''Ki'', ''Mi'', ''Gi'', ''Ti'', ''Pi'', ''Ei'', ''Zi'']"

text \<open>
  The \<open>for unit in [...]\<close> loop of \<open>hsize\<close>. When the list is exhausted the function
  reaches \<open>return f"{num:.1f}Yi{suffix}"\<close>; no name \<open>num\<close> is bound in the function or in
  the module, so evaluating it raises \<open>NameError\<close>.
\<close>

fun hsize_loop :: "string list \<Rightarrow> num \<Rightarrow> py_error + string" where
  "hsize_loop [] fsize = Inl NameError"
| "hsize_loop (unit # units) fsize =
     (if py_abs_lt fsize 1024 then
        (case format_3_0f fsize of
           Inl e \<Rightarrow> Inl e
         | Inr s \<Rightarrow> Inr (s @ unit @ suffix_Bytes))
      else
        (case py_truediv fsize 1024 of
           Inl e \<Rightarrow> Inl e
         | Inr fsize' \<Rightarrow> hsize_loop units fsize'))"

definition hsize :: "num \<Rightarrow> py_error + string" where
  "hsize fsize = hsize_loop hsize_units fsize"

section \<open>lib.py: configuration, themes and the template context\<close>

text \<open>
  What the program prints is kept as the list of the texts passed to \<open>print\<close>, oldest
  first. \<open>printe\<close> is \<open>print\<close> with an \<open>OSError\<close> of a missing terminal swallowed; the
  model records the text it is asked to print.
\<close>

type_synonym console = "string list"

definition printe :: "string \<Rightarrow> console \<Rightarrow> console" where
  "printe text out = out @ [text]"

text \<open>
  The module-level state of \<open>lib.py\<close>: \<open>jsondata\<close> is the \<open>config\<close> section of
  \<open>config/config.json\<close>, \<open>themes\<close> the content of \<open>themecfg.json\<close> (the empty dict when
  that file does not exist), \<open>version\<close> the package's \<open>__version__\<close>. Both dicts come
  from JSON, so their keys are strings; the values are left abstract. The module only
  loads when \<open>config/config.json\<close> exists: its \<open>else\<close> branch calls \<open>printe\<close> before the
  definition of \<open>printe\<close>.
\<close>

record ('c, 't) globals =
  jsondata :: "string \<rightharpoonup> 'c"
  themes :: "string \<rightharpoonup> 't"
  version :: string

text \<open>\<open>getconfig(part)\<close>: the value, or \<open>None\<close> and a warning when the key is missing.\<close>

definition getconfig :: "('c, 't) globals \<Rightarrow> string \<Rightarrow> console \<Rightarrow> 'c option \<times> console" where
  \<open>getconfig g part out =
    (case jsondata g part of
       Some v \<Rightarrow> (Some v, out)
     | None \<Rightarrow>
         (None, printe (''lib.py WARNING: Key "'' @ part @ ''" does not exist in config/config.json'') out))\<close>

text \<open>
  A theme name is what \<open>request.COOKIES.get("theme")\<close> gives: a string, or \<open>None\<close> when the
  cookie is not set. \<open>None\<close> is never a key of \<open>themes\<close>, and an f-string prints it as
  \<open>None\<close>.
\<close>

definition str_of_name :: "string option \<Rightarrow> string" where
  "str_of_name tname = (case tname of None \<Rightarrow> ''None'' | Some s \<Rightarrow> s)"

definition themes_getitem :: "('c, 't) globals \<Rightarrow> string option \<Rightarrow> py_error + 't" where
  "themes_getitem g tname =
    (case tname of
       None \<Rightarrow> Inl KeyError
     | Some k \<Rightarrow> (case themes g k of None \<Rightarrow> Inl KeyError | Some v \<Rightarrow> Inr v))"

text \<open>
  \<open>theme(tname)\<close>: the \<open>KeyError\<close> of the first lookup is handled by a warning and a
  second lookup, of \<open>default\<close>, whose own \<open>KeyError\<close> nothing handles.
\<close>

definition theme :: "('c, 't) globals \<Rightarrow> string option \<Rightarrow> console \<Rightarrow> (py_error + 't) \<times> console" where
  \<open>theme g tname out =
    (case themes_getitem g tname of
       Inr v \<Rightarrow> (Inr v, out)
     | Inl KeyError \<Rightarrow>
         (themes_getitem g (Some ''default''),
          printe (''lib.py WARNING: Theme "'' @ str_of_name tname @ ''" not found, using default'') out)
     | Inl e \<Rightarrow> (Inl e, out))\<close>

text \<open>The request, as far as \<open>mkcontext\<close> reads it: its cookies.\<close>

record request =
  COOKIES :: "string \<rightharpoonup> string"

text \<open>The values stored in the template context, a dict with string keys.\<close>

datatype ('c, 't) ctxval =
    CStr string
  | CTheme 't
  | CConfig "'c option"
  | CBool bool

definition mkcontext ::
  "('c, 't) globals \<Rightarrow> request \<Rightarrow> string \<Rightarrow> string \<Rightarrow> console
    \<Rightarrow> (py_error + (string \<rightharpoonup> ('c, 't) ctxval)) \<times> console" where
  "mkcontext g req title scripts out =
    (case theme g (COOKIES req ''theme'') out of
       (Inl e, out1) \<Rightarrow> (Inl e, out1)
     | (Inr styling, out1) \<Rightarrow>
         (case getconfig g ''misc'' out1 of (misc, out2) \<Rightarrow>
          case getconfig g ''navbar'' out2 of (navbar, out3) \<Rightarrow>
            let ctx = [''title'' \<mapsto> CStr title, ''styling'' \<mapsto> CTheme styling,
                       ''misc'' \<mapsto> CConfig misc, ''navbar'' \<mapsto> CConfig navbar,
                       ''ver'' \<mapsto> CStr (version g)]
            in
              (Inr
                (if scripts = ''font'' then
                   ctx(''fa'' \<mapsto> CBool True, ''jq'' \<mapsto> CBool False,
                       ''ts'' \<mapsto> CBool False, ''s2'' \<mapsto> CBool False)
                 else if scripts = ''form'' then
                   ctx(''fa'' \<mapsto> CBool False, ''jq'' \<mapsto> CBool True,
                       ''ts'' \<mapsto> CBool False, ''s2'' \<mapsto> CBool True)
                 else if scripts = ''table'' then
                   ctx(''fa'' \<mapsto> CBool True, ''jq'' \<mapsto> CBool True,
                       ''ts'' \<mapsto> CBool True, ''s2'' \<mapsto> CBool False)
                 else
                   ctx(''fa'' \<mapsto> CBool False, ''jq'' \<mapsto> CBool False,
                       ''ts'' \<mapsto> CBool False, ''s2'' \<mapsto> CBool False)),
               out3)))"

section \<open>genmodels.py: the model module\<close>

text \<open>
  A loop whose body may raise and may print: the first exception ends the loop, and what
  was printed before it stays printed.
\<close>

fun for_each ::
  "('a \<Rightarrow> 's \<Rightarrow> console \<Rightarrow> (py_error + 's) \<times> console) \<Rightarrow> 'a list \<Rightarrow> 's \<Rightarrow> console
    \<Rightarrow> (py_error + 's) \<times> console" where
  "for_each body [] s out = (Inr s, out)"
| "for_each body (x # xs) s out =
     (case body x s out of
        (Inl e, out') \<Rightarrow> (Inl e, out')
      | (Inr s', out') \<Rightarrow> for_each body xs s' out')"

definition py_print :: "string \<Rightarrow> console \<Rightarrow> console" where
  "py_print text out = out @ [text]"

definition nl :: string where
  "nl = [CHR 0x0A]"

text \<open>
  The attribute values of a column definition, as \<open>json.loads\<close> delivers them: strings
  and integers. A column definition is a dict from attribute name to value.
\<close>

datatype jval = JStr string | JInt int

type_synonym column = "string \<rightharpoonup> jval"

text \<open>What an f-string makes of a value.\<close>

fun py_str :: "jval \<Rightarrow> string" where
  "py_str (JStr s) = s"
| "py_str (JInt i) = (if i < 0 then ''-'' else []) @ digits (nat \<bar>i\<bar>)"

definition getitem :: "('k \<rightharpoonup> 'v) \<Rightarrow> 'k \<Rightarrow> py_error + 'v" where
  "getitem d k = (case d k of None \<Rightarrow> Inl KeyError | Some v \<Rightarrow> Inr v)"

text \<open>
  \<open>dt in "select"\<close>: on strings Python's \<open>in\<close> is the substring test; a left operand that
  is not a string raises \<open>TypeError\<close>.
\<close>

fun py_in_str :: "jval \<Rightarrow> string \<Rightarrow> py_error + bool" where
  "py_in_str (JStr s) t = Inr (sublist s t)"
| "py_in_str (JInt i) t = Inl TypeError"

text \<open>
  The configuration, as far as the generator reads it: the \<open>table\<close> section, a dict from
  group name to the list of the group's columns, in the file's order, and the path
  \<open>misc.basecss\<close>.
\<close>

record jsonconfig =
  table :: "(string \<times> column list) list"
  basecss :: string

text \<open>The variables of the first loop of \<open>configmodels\<close>.\<close>

record fields_state =
  table_text :: string
  cfgdata :: "jval \<rightharpoonup> column"

text \<open>The lines a column adds to \<open>table\<close>: its declaration and its group.\<close>

definition field_lines :: "jval \<Rightarrow> string \<Rightarrow> string \<Rightarrow> string" where
  \<open>field_lines c decl x =
    ''    '' @ py_str c @ '' = models.'' @ decl @ nl @
    ''    '' @ py_str c @ ''.group = "'' @ x @ ''"'' @ nl\<close>

text \<open>The body of the inner loop \<open>for y in dbconfig\<close>, for the group \<open>x\<close>.\<close>

definition column_body ::
  "string \<Rightarrow> column \<Rightarrow> fields_state \<Rightarrow> console \<Rightarrow> (py_error + fields_state) \<times> console" where
  \<open>column_body x y st out =
    (case getitem y ''datatype'' of
       Inl e \<Rightarrow> (Inl e, out)
     | Inr dt \<Rightarrow>
    (case getitem y ''col'' of
       Inl e \<Rightarrow> (Inl e, out)
     | Inr c \<Rightarrow>
    let st1 = st\<lparr>cfgdata := (cfgdata st)(c \<mapsto> y)\<rparr> in
    (case py_in_str dt ''select'' of
       Inl e \<Rightarrow> (Inl e, out)
     | Inr True \<Rightarrow>
         (case getitem y ''ddfile'' of
            Inl e \<Rightarrow> (Inl e, out)
          | Inr dd \<Rightarrow>
              (Inr (st1\<lparr>table_text := table_text st1 @
                  field_lines c
                    (''CharField(blank = True, max_length = 128, choices = Choices.totuplelist("''
                      @ py_str dd @ ''"))'') x\<rparr>), out))
     | Inr False \<Rightarrow>
         if dt = JStr ''string'' then
           (case getitem y ''max'' of
              Inl e \<Rightarrow> (Inl e, out)
            | Inr m \<Rightarrow>
                (Inr (st1\<lparr>table_text := table_text st1 @
                    field_lines c
                      (''CharField(blank = True, max_length = '' @ py_str m @ '')'') x\<rparr>), out))
         else if dt = JStr ''text'' then
           (Inr (st1\<lparr>table_text := table_text st1 @
               field_lines c ''TextField(blank = True, null = True)'' x\<rparr>), out)
         else if dt = JStr ''date'' then
           (Inr (st1\<lparr>table_text := table_text st1 @
               field_lines c ''DateField(null = True)'' x\<rparr>), out)
         else
           (Inr st1,
            py_print (''WARNING: Unknown datatype "'' @ py_str dt @ ''", skipping'') out))))\<close>

text \<open>The text added to \<open>groups\<close> for the group \<open>i\<close>.\<close>

definition group_text :: "string \<Rightarrow> string" where
  \<open>group_text i =
    nl @ ''    def group_'' @ i @ ''(self):'' @ nl @
    ''        return filter(lambda x: x.group == "'' @ i @ ''", self.fields.values())'' @ nl\<close>

text \<open>The body of the loop that collects the column names.\<close>

definition colname_body ::
  "column \<Rightarrow> jval list \<Rightarrow> console \<Rightarrow> (py_error + jval list) \<times> console" where
  "colname_body y colnames out =
    (case getitem y ''col'' of
       Inl e \<Rightarrow> (Inl e, out)
     | Inr c \<Rightarrow> (Inr (colnames @ [c]), out))"

definition todict_text :: "jval list \<Rightarrow> string" where
  \<open>todict_text colnames =
    ''{'' @
    foldl (\<lambda>todict i. todict @ ''"'' @ py_str i @ ''": self.'' @ py_str i @ '', '') [] colnames
    @ ''}''\<close>

text \<open>
  The values \<open>configmodels\<close> substitutes in its module template. The template is a fixed
  text with the places \<open>{date}\<close>, \<open>{table}\<close>, \<open>{todict}\<close>, \<open>{cfgdata}\<close> and \<open>{colnames}\<close>, the
  last two printed as Python prints a dict and a list; it has no place for \<open>groups\<close>. The
  model stops at the values.
\<close>

record model_values =
  tpl_table :: string
  tpl_groups :: string
  tpl_todict :: string
  tpl_cfgdata :: "jval \<rightharpoonup> column"
  tpl_colnames :: "jval list"

definition configmodels ::
  "jsonconfig \<Rightarrow> console \<Rightarrow> (py_error + model_values) \<times> console" where
  "configmodels jc out =
    (case for_each (\<lambda>(x, dbconfig). for_each (column_body x) dbconfig) (table jc)
            \<lparr>table_text = [], cfgdata = Map.empty\<rparr> out of
       (Inl e, out1) \<Rightarrow> (Inl e, out1)
     | (Inr st, out1) \<Rightarrow>
         let groups = foldl (\<lambda>g i. g @ group_text i) [] (map fst (table jc)) in
         (case for_each (\<lambda>(x, dbconfig). for_each colname_body dbconfig) (table jc) [] out1 of
            (Inl e, out2) \<Rightarrow> (Inl e, out2)
          | (Inr colnames0, out2) \<Rightarrow>
              let colnames = ([JStr ''inid''] @ colnames0) @ [JStr ''tcrd''] @ [JStr ''tmod'']
              in (Inr \<lparr>tpl_table = table_text st, tpl_groups = groups,
                       tpl_todict = todict_text colnames, tpl_cfgdata = cfgdata st,
                       tpl_colnames = colnames\<rparr>, out2)))"

text \<open>
  For the statement that \<open>configmodels\<close> returns: a column definition on which no
  lookup of the column loop fails.
\<close>

definition column_ok :: "column \<Rightarrow> bool" where
  "column_ok y =
    (case (y ''datatype'', y ''col'') of
       (Some (JStr d), Some c) \<Rightarrow>
         (if sublist d ''select'' then y ''ddfile'' \<noteq> None
          else if d = ''string'' then y ''max'' \<noteq> None
          else True)
     | _ \<Rightarrow> False)"

section \<open>genmodels.py: theme discovery and CSS compilation\<close>

text \<open>
  The theme descriptor, the value under the key \<open>theme\<close> of a theme's \<open>index.json\<close>:
  \<open>fonts\<close> is a dict from font family to font file, kept in the file's order with one
  entry per family, \<open>css\<close> the path of the theme's stylesheet. After compilation \<open>css\<close>
  holds the stylesheet itself.
\<close>

record theme_index =
  int_name :: string
  disp_name :: string
  fonts :: "(string \<times> string) list"
  css :: string

text \<open>
  What \<open>dict(json.load(f))\<close> does with an index file: it returns the dict of the
  document's top-level object, or \<open>json.load\<close> raises \<open>JSONDecodeError\<close> with a message,
  or something else is raised (by \<open>open\<close>, by the decoding of the bytes, or by \<open>dict\<close> on
  a document that is no object).
\<close>

datatype json_load =
    Parsed "string \<rightharpoonup> theme_index"
  | JSONDecodeError string
  | Raises py_error

text \<open>
  The file system as the command reads it. \<open>listdir\<close>, \<open>read_text\<close> and \<open>read_bytes\<close> are
  \<open>None\<close> where \<open>os.listdir\<close> or \<open>open\<close> raises \<open>FileNotFoundError\<close>.
\<close>

record filesystem =
  listdir :: "string \<Rightarrow> string list option"
  path_isdir :: "string \<Rightarrow> bool"
  path_exists :: "string \<Rightarrow> bool"
  load_json :: "string \<Rightarrow> json_load"
  read_text :: "string \<Rightarrow> string option"
  read_bytes :: "string \<Rightarrow> string option"

text \<open>
  The library functions the command calls on data: \<open>base64.b64encode\<close> (decoded as
  UTF-8), \<open>csscompressor.compress\<close> and \<open>pathlib.Path(p).suffix\<close>.
\<close>

record libraries =
  b64encode :: "string \<Rightarrow> string"
  compress :: "string \<Rightarrow> string"
  path_suffix :: "string \<Rightarrow> string"

text \<open>\<open>os.path.join(a, b)\<close> on POSIX.\<close>

definition path_join :: "string \<Rightarrow> string \<Rightarrow> string" where
  "path_join a b =
    (if b \<noteq> [] \<and> hd b = CHR ''/'' then b
     else if a = [] \<or> last a = CHR ''/'' then a @ b
     else a @ ''/'' @ b)"

subsection \<open>Discovery\<close>

text \<open>
  The directories of \<open>config/themes\<close>, in the order \<open>os.listdir\<close> gives them, without
  \<open>common\<close>: \<open>list.remove\<close> deletes the first occurrence.
\<close>

definition themedir_names :: "filesystem \<Rightarrow> py_error + string list" where
  "themedir_names fs =
    (case listdir fs ''config/themes'' of
       None \<Rightarrow> Inl FileNotFoundError
     | Some names \<Rightarrow>
         let themedir = filter (\<lambda>f. path_isdir fs (path_join ''config/themes'' f)) names
         in Inr (if ''common'' \<in> set themedir then remove1 ''common'' themedir else themedir))"

definition index_path :: "string \<Rightarrow> string" where
  "index_path name = ''config/themes/'' @ name @ ''/index.json''"

text \<open>
  The body of \<open>for name in themedir\<close>. Only \<open>JSONDecodeError\<close> is handled; any other
  exception, such as the \<open>KeyError\<close> of a document without the key \<open>theme\<close>, leaves the
  loop and the command.
\<close>

definition index_body ::
  "filesystem \<Rightarrow> string \<Rightarrow> theme_index list \<Rightarrow> console
    \<Rightarrow> (py_error + theme_index list) \<times> console" where
  \<open>index_body fs name themeindices out =
    (if path_exists fs (index_path name) then
       (case load_json fs (index_path name) of
          Parsed doc \<Rightarrow>
            (case getitem doc ''theme'' of
               Inl e \<Rightarrow> (Inl e, out)
             | Inr themedata \<Rightarrow> (Inr (themeindices @ [themedata]), out))
        | JSONDecodeError e \<Rightarrow>
            (Inr themeindices,
             py_print (''genmodels.py WARNING: Exception "'' @ e @
               ''" raised by JSON library, the theme would not be available'') out)
        | Raises err \<Rightarrow> (Inl err, out))
     else
       (Inr themeindices,
        py_print (''genmodels.py WARNING: Theme "'' @ name @
          ''" does not have a index.json, the theme would not be available'') out))\<close>

definition discover_themes ::
  "filesystem \<Rightarrow> console \<Rightarrow> (py_error + theme_index list) \<times> console" where
  "discover_themes fs out =
    (case themedir_names fs of
       Inl e \<Rightarrow> (Inl e, out)
     | Inr themedir \<Rightarrow> for_each (index_body fs) themedir [] out)"

text \<open>
  For the statement of the discovery property: the descriptor a theme directory
  contributes, if any, and whether its index makes the command stop.
\<close>

definition usable_index :: "filesystem \<Rightarrow> string \<Rightarrow> theme_index option" where
  "usable_index fs name =
    (if path_exists fs (index_path name) then
       (case load_json fs (index_path name) of
          Parsed doc \<Rightarrow> doc ''theme''
        | JSONDecodeError e \<Rightarrow> None
        | Raises err \<Rightarrow> None)
     else None)"

definition index_raises :: "filesystem \<Rightarrow> string \<Rightarrow> bool" where
  "index_raises fs name =
    (path_exists fs (index_path name) \<and>
     (case load_json fs (index_path name) of
        Parsed doc \<Rightarrow> doc ''theme'' = None
      | JSONDecodeError e \<Rightarrow> False
      | Raises err \<Rightarrow> True))"

subsection \<open>CSS compilation\<close>

text \<open>The variables of the font loop; \<open>fontfiletype\<close> is \<open>None\<close> while it is unbound.\<close>

record font_state =
  themecss :: string
  fontfiletype :: "string option"

definition font_face :: "string \<Rightarrow> string \<Rightarrow> string \<Rightarrow> string" where
  "font_face fontfamily filetype font_b64 =
    nl @ ''@font-face {'' @ nl @
    ''    font-family: '' @ fontfamily @ '';'' @ nl @
    ''    src: url(data:font/'' @ filetype @ '';charset=utf-8;base64,'' @ font_b64 @
    '') format('' @ [CHR 0x27] @ filetype @ [CHR 0x27] @ '');'' @ nl @
    ''}'' @ nl @ nl"

text \<open>
  The body of \<open>for font in theme["fonts"].keys()\<close>. An extension other than \<open>.otf\<close> and
  \<open>.ttf\<close> leaves \<open>fontfiletype\<close> as the previous font left it, unbound at the first.
\<close>

definition font_body ::
  "filesystem \<Rightarrow> libraries \<Rightarrow> string \<times> string \<Rightarrow> font_state \<Rightarrow> console
    \<Rightarrow> (py_error + font_state) \<times> console" where
  "font_body fs lb entry st out =
    (case entry of (font, file) \<Rightarrow>
     let ext = path_suffix lb file;
         fontfiletype' =
           (if ext = ''.otf'' then Some ''opentype''
            else if ext = ''.ttf'' then Some ''truetype''
            else fontfiletype st)
     in
       (case read_bytes fs file of
          None \<Rightarrow> (Inl FileNotFoundError, out)
        | Some content \<Rightarrow>
            let font_b64 = b64encode lb content in
            (case fontfiletype' of
               None \<Rightarrow> (Inl UnboundLocalError, out)
             | Some filetype \<Rightarrow>
                 (Inr \<lparr>themecss = themecss st @ font_face font filetype font_b64,
                       fontfiletype = fontfiletype'\<rparr>, out))))"

text \<open>The body of the second \<open>for theme in themeindices\<close>, which fills \<open>themes\<close>.\<close>

definition theme_body ::
  "filesystem \<Rightarrow> libraries \<Rightarrow> string \<Rightarrow> theme_index \<Rightarrow> (string \<rightharpoonup> theme_index) \<Rightarrow> console
    \<Rightarrow> (py_error + (string \<rightharpoonup> theme_index)) \<times> console" where
  \<open>theme_body fs lb css_prefix th registry out =
    (let themedir = path_join ''config/themes'' (int_name th);
         themeind = path_join themedir ''index.json''
     in
       if path_exists fs themeind then
         (case read_text fs (css th) of
            None \<Rightarrow> (Inl FileNotFoundError, out)
          | Some text \<Rightarrow>
              (Inr (registry(int_name th \<mapsto> th\<lparr>css := compress lb (css_prefix @ text)\<rparr>)), out))
       else
         (Inr registry,
          py_print (''themecfg.py WARNING: Theme directory "'' @ themedir @
            ''" does not have an index.json. The theme would not be available.'') out))\<close>

text \<open>
  The CSS compile step: the \<open>@font-face\<close> rules of all themes, then the base stylesheet,
  then per theme its own stylesheet, compressed. The result is the dict written to
  \<open>themecfg.json\<close>.
\<close>

definition compile_themes ::
  "filesystem \<Rightarrow> libraries \<Rightarrow> jsonconfig \<Rightarrow> theme_index list \<Rightarrow> console
    \<Rightarrow> (py_error + (string \<rightharpoonup> theme_index)) \<times> console" where
  "compile_themes fs lb jc themeindices out =
    (case for_each (\<lambda>th. for_each (font_body fs lb) (fonts th)) themeindices
            \<lparr>themecss = [], fontfiletype = None\<rparr> out of
       (Inl e, out1) \<Rightarrow> (Inl e, out1)
     | (Inr st, out1) \<Rightarrow>
         (case read_text fs (basecss jc) of
            None \<Rightarrow> (Inl FileNotFoundError, out1)
          | Some base \<Rightarrow>
              for_each (theme_body fs lb (themecss st @ base)) themeindices Map.empty out1))"

text \<open>
  For the statement and proof of determinism: the index file the second theme loop
  looks for, and the relation it keeps between the registries of two runs.
\<close>

definition theme_index_path :: "string \<Rightarrow> string" where
  "theme_index_path k = path_join (path_join ''config/themes'' k) ''index.json''"

definition registries_agree ::
  "filesystem \<Rightarrow> filesystem \<Rightarrow> (string \<rightharpoonup> theme_index) \<Rightarrow> (string \<rightharpoonup> theme_index) \<Rightarrow> bool" where
  "registries_agree fs1 fs2 m1 m2 =
    ((\<forall>k t1 t2. m1 k = Some t1 \<and> m2 k = Some t2 \<longrightarrow> t1 = t2)
     \<and> (\<forall>k t. m1 k = Some t \<longrightarrow> path_exists fs1 (theme_index_path k))
     \<and> (\<forall>k t. m2 k = Some t \<longrightarrow> path_exists fs2 (theme_index_path k)))"

section \<open>src/lib.py: csv2list\<close>

text \<open>
  \<open>csv2list\<close> is \<open>list(csv.DictReader(f))\<close> on the opened file. The tokenising of the file
  into rows is \<open>csv.reader\<close>'s, which belongs to Python's library: the model starts from
  the rows \<open>csv.reader\<close> yields, a list of cells per line and \<open>[]\<close> for a blank line.
  \<open>DictReader\<close> is called with its defaults, \<open>restkey = None\<close> and \<open>restval = None\<close>.
\<close>

text \<open>
  The values of a row's dict: a cell's text; the list of surplus cells, stored under the
  key \<open>None\<close>; and \<open>None\<close> for a cell the row lacks. A key is a header name or \<open>None\<close>.
\<close>

datatype cell = Text string | Rest "string list" | PyNone

type_synonym row_dict = "string option \<rightharpoonup> cell"

text \<open>One step of \<open>DictReader.__next__\<close> on a non-blank row.\<close>

definition dict_row :: "string list \<Rightarrow> string list \<Rightarrow> row_dict" where
  "dict_row fieldnames row =
    (let d = Map.empty(map Some fieldnames [\<mapsto>] map Text row);
         lf = length fieldnames;
         lr = length row
     in if lf < lr then d(None \<mapsto> Rest (drop lf row))
        else if lf > lr then fold (\<lambda>key d. d(Some key \<mapsto> PyNone)) (drop lr fieldnames) d
        else d)"

text \<open>The iteration over the rows after the header: blank rows are passed over.\<close>

fun dict_rows :: "string list \<Rightarrow> string list list \<Rightarrow> row_dict list" where
  "dict_rows fieldnames [] = []"
| "dict_rows fieldnames (row # rows) =
     (if row = [] then dict_rows fieldnames rows
      else dict_row fieldnames row # dict_rows fieldnames rows)"

text \<open>The first row gives the field names; a file without rows gives no dict.\<close>

definition DictReader :: "string list list \<Rightarrow> row_dict list" where
  "DictReader rows = (case rows of [] \<Rightarrow> [] | fieldnames # rest \<Rightarrow> dict_rows fieldnames rest)"

text \<open>
  \<open>csv2list(path)\<close>. The files are given by the rows \<open>csv.reader\<close> reads from each path,
  \<open>None\<close> where \<open>open\<close> raises.
\<close>

definition csv2list :: "(string \<Rightarrow> string list list option) \<Rightarrow> string \<Rightarrow> py_error + row_dict list" where
  "csv2list files path =
    (case files path of
       None \<Rightarrow> Inl FileNotFoundError
     | Some rows \<Rightarrow> Inr (DictReader rows))"

section \<open>Concrete inputs\<close>

text \<open>
  A themes directory with the reserved directory \<open>common\<close>, a theme \<open>dark\<close> with a good
  index, a theme \<open>broken\<close> whose index is not JSON, a theme \<open>empty\<close> without an index,
  and a plain file.
\<close>

definition dark_theme :: theme_index where
  "dark_theme =
    \<lparr>int_name = ''dark'', disp_name = ''Dark'',
     fonts = [(''Body'', ''fonts/body.ttf'')], css = ''config/themes/dark/dark.css''\<rparr>"

definition themes_fs :: filesystem where
  "themes_fs =
    \<lparr>listdir = (\<lambda>p. if p = ''config/themes''
                      then Some [''common'', ''dark'', ''broken'', ''empty'', ''notes.txt'']
                      else None),
     path_isdir = (\<lambda>p. p \<noteq> ''config/themes/notes.txt''),
     path_exists = (\<lambda>p. p = ''config/themes/dark/index.json''
                        \<or> p = ''config/themes/broken/index.json''),
     load_json = (\<lambda>p. if p = ''config/themes/dark/index.json''
                        then Parsed [''theme'' \<mapsto> dark_theme]
                        else JSONDecodeError ''Expecting value: line 1 column 1 (char 0)''),
     read_text = (\<lambda>p. if p = ''base.css'' then Some ''body { margin: 0 }''
                        else if p = ''config/themes/dark/dark.css'' then Some ''body { color: white }''
                        else None),
     read_bytes = (\<lambda>p. if p = ''fonts/body.ttf'' then Some ''ABC'' else None)\<rparr>"

text \<open>
  The same files seen by a second run, in which the directory listing and an unrelated
  file differ.
\<close>

definition themes_fs_later :: filesystem where
  "themes_fs_later =
    themes_fs\<lparr>listdir := (\<lambda>p. if p = ''config/themes'' then Some [''dark'', ''common''] else None),
              read_text := (\<lambda>p. if p = ''README'' then Some ''notes'' else read_text themes_fs p)\<rparr>"

text \<open>
  A themes directory in which the index of the theme \<open>nokey\<close> is a JSON object without
  the key \<open>theme\<close>.
\<close>

definition themes_fs_nokey :: filesystem where
  "themes_fs_nokey =
    themes_fs\<lparr>listdir := (\<lambda>p. if p = ''config/themes'' then Some [''dark'', ''nokey''] else None),
              path_exists := (\<lambda>p. p = ''config/themes/dark/index.json''
                                 \<or> p = ''config/themes/nokey/index.json''),
              load_json := (\<lambda>p. if p = ''config/themes/dark/index.json''
                                 then Parsed [''theme'' \<mapsto> dark_theme]
                                 else Parsed Map.empty)\<rparr>"

text \<open>Stand-ins for the library functions: any functions will do.\<close>

definition sample_libraries :: libraries where
  "sample_libraries =
    \<lparr>b64encode = (\<lambda>bs. ''QUJD''),
     compress = filter (\<lambda>c. c \<noteq> CHR '' '' \<and> c \<noteq> CHR 0x0A),
     path_suffix = (\<lambda>p. drop (length p - 4) p)\<rparr>"

definition sample_config :: jsonconfig where
  "sample_config = \<lparr>table = [], basecss = ''base.css''\<rparr>"

section \<open>Properties of the number model\<close>

lemma round_to_double_small: "a < 2 ^ 53 \<Longrightarrow> round_to_double a = a"
  by (simp add: round_to_double_def bitlen_le_iff_power)

lemma round_to_double_large:
  assumes big: "2 ^ 80 \<le> a"
  shows "2 ^ 80 \<le> round_to_double a"
proof -
  define e where "e = nat (bitlen a - 53)"
  define p :: int where "p = 2 ^ e"
  define q where "q = a div p"
  define m where "m = (if p div 2 < a mod p \<or> (a mod p = p div 2 \<and> odd q) then q + 1 else q)"
  have apos: "0 < a" using big by simp
  have big_bl: "81 \<le> bitlen a"
    using big by (simp add: bitlen_ge_iff_power)
  then have e28: "28 \<le> e" by (simp add: e_def)
  have "\<not> bitlen a - 53 \<le> 0" using big_bl by simp
  then have r: "round_to_double a = m * p"
    unfolding round_to_double_def Let_def m_def q_def p_def e_def by (rule if_not_P)
  have ppos: "0 < p" by (simp add: p_def)
  have a_lower: "2 ^ nat (bitlen a - 1) \<le> a" using bitlen_bounds [OF apos] by simp
  have "nat (bitlen a - 1) = 52 + e" using big_bl by (simp add: e_def)
  with a_lower have "2 ^ 52 * p \<le> a" by (simp add: p_def power_add)
  then have "(2 ^ 52 * p) div p \<le> a div p" by (rule zdiv_mono1) (rule ppos)
  then have q52: "2 ^ 52 \<le> q" using ppos by (simp add: q_def)
  have qm: "q \<le> m" by (simp add: m_def)
  have "(2::int) ^ 28 \<le> p" unfolding p_def using e28 by (intro power_increasing) simp_all
  with q52 qm have "(2::int) ^ 52 * 2 ^ 28 \<le> m * p"
    by (intro mult_mono) simp_all
  then show ?thesis by (simp add: r)
qed

lemma py_float_exact:
  assumes "\<bar>n\<bar> < 2 ^ 53"
  shows "py_float n = Inr (of_int n)"
proof -
  have r: "round_to_double \<bar>n\<bar> = \<bar>n\<bar>" using assms by (rule round_to_double_small)
  have s: "sgn n * \<bar>n\<bar> = n" by (rule mult_sgn_abs)
  have "\<not> 2 ^ 1024 \<le> \<bar>n\<bar>" using assms by simp
  then show ?thesis unfolding py_float_def Let_def r s by (rule if_not_P)
qed

lemma py_float_cases: "py_float n = Inl OverflowError \<or> (\<exists>x. py_float n = Inr x)"
  by (simp add: py_float_def Let_def)

lemma py_float_large:
  assumes big: "2 ^ 80 \<le> \<bar>n\<bar>" and conv: "py_float n = Inr x"
  shows "2 ^ 80 \<le> \<bar>x\<bar>"
proof -
  define m where "m = round_to_double \<bar>n\<bar>"
  have m: "2 ^ 80 \<le> m" unfolding m_def using big by (rule round_to_double_large)
  have x: "x = of_int (sgn n * m)"
    using conv unfolding py_float_def Let_def m_def by (simp split: if_splits)
  have "n \<noteq> 0" using big by auto
  then have "\<bar>sgn n * m\<bar> = \<bar>m\<bar>" by (simp add: abs_mult abs_sgn_eq)
  with m have "2 ^ 80 \<le> \<bar>sgn n * m\<bar>" by simp
  then have "(of_int (2 ^ 80) :: rat) \<le> of_int \<bar>sgn n * m\<bar>" by (simp only: of_int_le_iff)
  then show ?thesis by (simp add: x)
qed

lemma round_to_double_fits:
  assumes small: "0 \<le> a" "a < 2 ^ 1023"
  shows "round_to_double a < 2 ^ 1024"
proof (cases "bitlen a - 53 \<le> 0")
  case True
  then have "round_to_double a = a" by (simp add: round_to_double_def)
  with small show ?thesis by simp
next
  case False
  define e where "e = nat (bitlen a - 53)"
  define p :: int where "p = 2 ^ e"
  define q where "q = a div p"
  define m where "m = (if p div 2 < a mod p \<or> (a mod p = p div 2 \<and> odd q) then q + 1 else q)"
  from False have r: "round_to_double a = m * p"
    unfolding round_to_double_def Let_def m_def q_def p_def e_def by (rule if_not_P)
  from False have apos: "0 < a" using bitlen_eq_zero_iff [of a] small by (cases "a = 0") auto
  have ppos: "0 < p" by (simp add: p_def)
  have bl: "bitlen a \<le> 1023" using small by (simp add: bitlen_le_iff_power)
  with False have e970: "e \<le> 970" by (simp add: e_def)
  have "a < 2 ^ nat (bitlen a)" using bitlen_bounds [OF apos] by simp
  moreover have "nat (bitlen a) = 53 + e" using False by (simp add: e_def)
  ultimately have "a < 2 ^ 53 * p" by (simp add: p_def power_add)
  moreover have "q * p \<le> a"
    using div_mult_mod_eq [of a p] pos_mod_sign [OF ppos, of a] unfolding q_def by linarith
  ultimately have "q * p < 2 ^ 53 * p" by simp
  then have "q < 2 ^ 53" using ppos by (simp only: mult_less_cancel_right)
  then have m53: "m \<le> 2 ^ 53" by (simp add: m_def)
  have "p \<le> 2 ^ 970" unfolding p_def using e970 by (intro power_increasing) simp_all
  with m53 ppos have "m * p \<le> 2 ^ 53 * 2 ^ 970" by (intro mult_mono) simp_all
  then show ?thesis by (simp add: r)
qed

lemma py_float_converts: "\<bar>n\<bar> < 2 ^ 1023 \<Longrightarrow> \<exists>x. py_float n = Inr x"
  using round_to_double_fits [of "\<bar>n\<bar>"] by (simp add: py_float_def Let_def)

lemma digit_char_value: "d < 10 \<Longrightarrow> of_char (digit_char d) - 48 = d"
  by (simp add: digit_char_def)

lemma digit_chars: "map digit_char [0..<10] = ''0123456789''"
  by code_simp

lemma digit_char_is_digit: "d < 10 \<Longrightarrow> digit_char d \<in> set ''0123456789''"
proof -
  assume "d < 10"
  then have "digit_char d \<in> set (map digit_char [0..<10])" by simp
  then show ?thesis by (simp only: digit_chars)
qed

lemma digits_decimal: "decimal_value (digits n) = n \<and> set (digits n) \<subseteq> set ''0123456789''"
proof (induction n rule: digits.induct)
  case (1 n)
  show ?case
  proof (cases "n < 10")
    case True
    then have d: "digits n = [digit_char n]" by (simp add: digits.simps)
    from True show ?thesis
      unfolding d using digit_char_is_digit [of n]
      by (simp add: decimal_value_def digit_char_value)
  next
    case False
    then have d: "digits n = digits (n div 10) @ [digit_char (n mod 10)]"
      by (subst digits.simps) simp
    from 1 [OF False] have ih: "decimal_value (digits (n div 10)) = n div 10"
      and ihs: "set (digits (n div 10)) \<subseteq> set ''0123456789''" by simp_all
    have m: "n mod 10 < 10" by simp
    have "decimal_value (digits n) = 10 * (n div 10) + n mod 10"
      unfolding d using ih by (simp add: decimal_value_def digit_char_value [OF m])
    moreover have "set (digits n) \<subseteq> set ''0123456789''"
      unfolding d using ihs digit_char_is_digit [OF m] by simp
    ultimately show ?thesis by simp
  qed
qed

lemma round_to_double_ge_power:
  assumes k: "53 \<le> k" and big: "2 ^ k \<le> a"
  shows "2 ^ k \<le> round_to_double a"
proof -
  define e where "e = nat (bitlen a - 53)"
  define p :: int where "p = 2 ^ e"
  define q where "q = a div p"
  define m where "m = (if p div 2 < a mod p \<or> (a mod p = p div 2 \<and> odd q) then q + 1 else q)"
  have "(0::int) < 2 ^ k" by simp
  with big have apos: "0 < a" by linarith
  have "nat (int k + 1) - 1 = k" by simp
  with big have "2 ^ (nat (int k + 1) - 1) \<le> a" by (simp only:)
  then have big_bl: "int k + 1 \<le> bitlen a"
    by (simp only: bitlen_ge_iff_power) simp
  with k have "\<not> bitlen a - 53 \<le> 0" by simp
  then have r: "round_to_double a = m * p"
    unfolding round_to_double_def Let_def m_def q_def p_def e_def by (rule if_not_P)
  have ppos: "0 < p" by (simp add: p_def)
  have a_lower: "2 ^ nat (bitlen a - 1) \<le> a" using bitlen_bounds [OF apos] by simp
  have ex: "nat (bitlen a - 1) = 52 + e" using big_bl k by (simp add: e_def)
  with a_lower have "2 ^ 52 * p \<le> a" by (simp add: p_def power_add)
  then have "(2 ^ 52 * p) div p \<le> a div p" by (rule zdiv_mono1) (rule ppos)
  then have q52: "2 ^ 52 \<le> q" using ppos by (simp add: q_def)
  have qm: "q \<le> m" by (simp add: m_def)
  from q52 qm have "2 ^ 52 \<le> m" by simp
  then have "2 ^ 52 * p \<le> m * p" using ppos by (intro mult_right_mono) simp_all
  then have low: "2 ^ (52 + e) \<le> m * p" by (simp add: p_def power_add)
  have "k \<le> 52 + e" using big_bl ex by linarith
  then have "(2::int) ^ k \<le> 2 ^ (52 + e)" by (intro power_increasing) simp_all
  from this low show ?thesis unfolding r by (rule order_trans)
qed

lemma py_float_overflows: "2 ^ 1024 \<le> \<bar>n\<bar> \<Longrightarrow> py_float n = Inl OverflowError"
  using round_to_double_ge_power [of 1024 "\<bar>n\<bar>"] by (simp add: py_float_def Let_def)

lemma round_half_even_near: "\<bar>of_int (round_half_even x) - x\<bar> \<le> 1 / 2"
proof -
  have "of_int \<lfloor>x\<rfloor> \<le> x" "x < of_int \<lfloor>x\<rfloor> + 1" by linarith+
  then show ?thesis
    unfolding round_half_even_def Let_def by (simp add: abs_le_iff)
qed

lemma round_half_even_of_int [simp]: "round_half_even (of_int k) = k"
  by (simp add: round_half_even_def)

lemma hsize_loop_exhausted:
  "1024 ^ length units \<le> \<bar>x\<bar> \<Longrightarrow> hsize_loop units (PyFloat x) = Inl NameError"
proof (induction units arbitrary: x)
  case Nil
  show ?case by simp
next
  case (Cons u units)
  have "(1024::rat) \<le> 1024 ^ length (u # units)" by (rule self_le_power) simp_all
  from this Cons.prems have big: "1024 \<le> \<bar>x\<bar>" by (rule order_trans)
  have "1024 ^ length units \<le> \<bar>x / 1024\<bar>" using Cons.prems by (simp add: le_divide_eq)
  then have "hsize_loop units (PyFloat (x / 1024)) = Inl NameError" by (rule Cons.IH)
  with big show ?case by simp
qed

lemma format_3_0f_int:
  "\<bar>n\<bar> < 2 ^ 53 \<Longrightarrow>
   format_3_0f (PyInt n) = Inr (rjust 3 ((if n < 0 then ''-'' else '''') @ digits (nat \<bar>n\<bar>)))"
  by (simp add: py_float_exact format_3_0f_float_def flip: of_int_abs)

lemma hsize_first_unit:
  assumes "\<bar>n\<bar> < 1024"
  shows "hsize (PyInt n) =
    Inr (rjust 3 ((if n < 0 then ''-'' else '''') @ digits (nat \<bar>n\<bar>)) @ '' Bytes'')"
proof -
  have "\<bar>n\<bar> < 2 ^ 53" using assms by simp
  then have f: "format_3_0f (PyInt n) =
      Inr (rjust 3 ((if n < 0 then ''-'' else '''') @ digits (nat \<bar>n\<bar>)))"
    by (rule format_3_0f_int)
  have "(of_int \<bar>n\<bar> :: rat) < of_int 1024" using assms by (simp only: of_int_less_iff)
  then have lt: "py_abs_lt (PyInt n) 1024" by simp
  show ?thesis
    unfolding hsize_def hsize_units_def hsize_loop.simps using lt
    by (simp only: f if_True sum.case suffix_Bytes_def append_Cons append_Nil)
qed

lemma hsize_Ki:
  assumes lo: "1024 \<le> n" and hi: "n < 1024 ^ 2"
  shows "hsize (PyInt n) =
    Inr (rjust 3 (digits (nat (round_half_even (of_int n / 1024)))) @ ''KiBytes'')"
proof -
  have "\<bar>n\<bar> < 2 ^ 53" using lo hi by simp
  then have conv: "py_float n = Inr (of_int n)" by (rule py_float_exact)
  have "(of_int 1024 :: rat) \<le> of_int \<bar>n\<bar>" using lo by (simp only: of_int_le_iff)
  then have ge: "\<not> py_abs_lt (PyInt n) 1024" by simp
  have "(of_int n :: rat) < of_int (1024 ^ 2)" using hi by (simp only: of_int_less_iff)
  then have "(of_int n :: rat) / 1024 < 1024" by simp
  moreover have nonneg: "(0::rat) \<le> of_int n / 1024" using lo by simp
  ultimately have lt: "py_abs_lt (PyFloat (of_int n / 1024)) 1024" by simp
  have fmt: "format_3_0f_float (of_int n / 1024) =
      rjust 3 (digits (nat (round_half_even (of_int n / 1024))))"
    using nonneg by (simp add: format_3_0f_float_def)
  show ?thesis
    unfolding hsize_def hsize_units_def hsize_loop.simps using ge lt
    by (simp add: conv fmt suffix_Bytes_def)
qed

lemma hsize_all_units_exceeded:
  assumes big: "1024 ^ 8 \<le> \<bar>n\<bar>"
  shows "hsize (PyInt n) = (case py_float n of Inl e \<Rightarrow> Inl e | Inr x \<Rightarrow> Inl NameError)"
proof -
  have "(of_int (1024 ^ 8) :: rat) \<le> of_int \<bar>n\<bar>" using big by (simp only: of_int_le_iff)
  then have ge: "\<not> py_abs_lt (PyInt n) 1024" by simp
  have step: "hsize (PyInt n) =
      (case py_float n of Inl e \<Rightarrow> Inl e
       | Inr x \<Rightarrow> hsize_loop [''Ki'', ''Mi'', ''Gi'', ''Ti'', ''Pi'', ''Ei'', ''Zi''] (PyFloat (x / 1024)))"
    unfolding hsize_def hsize_units_def using ge by (simp split: sum.splits)
  show ?thesis
  proof (cases "py_float n")
    case (Inl e)
    with step show ?thesis by simp
  next
    case (Inr x)
    have "2 ^ 80 \<le> \<bar>n\<bar>" using big by simp
    then have "2 ^ 80 \<le> \<bar>x\<bar>" using Inr by (rule py_float_large)
    then have "1024 ^ length [''Ki'', ''Mi'', ''Gi'', ''Ti'', ''Pi'', ''Ei'', ''Zi''] \<le> \<bar>x / 1024\<bar>"
      by (simp add: le_divide_eq)
    then have "hsize_loop [''Ki'', ''Mi'', ''Gi'', ''Ti'', ''Pi'', ''Ei'', ''Zi''] (PyFloat (x / 1024)) = Inl NameError"
      by (rule hsize_loop_exhausted)
    with step Inr show ?thesis by simp
  qed
qed

section \<open>Properties of hsize\<close>

text \<open>
  Claim C1, as the code has it. For an integer byte count \<open>0 \<le> n < 1024\<close>, \<open>hsize\<close> returns
  the decimal digits of \<open>n\<close>, padded on the left to at least 3 characters, followed by
  the first unit (a single space) and \<open>Bytes\<close>. For \<open>1024 \<le> n < 1024\<^sup>2\<close> it returns
  \<open>n / 1024\<close> rounded to zero decimals (ties to even), padded alike, followed by \<open>Ki\<close> and
  \<open>Bytes\<close> with nothing between them. So \<open>hsize(1023)\<close> is \<open>1023 Bytes\<close> and \<open>hsize(1024)\<close>
  is \<open>  1KiBytes\<close>.
\<close>

theorem hsize_Bytes_and_Ki:
  "(0 \<le> n \<and> n < 1024 \<longrightarrow>
      hsize (PyInt n) = Inr (rjust 3 (digits (nat n)) @ '' Bytes''))
   \<and> (1024 \<le> n \<and> n < 1024 ^ 2 \<longrightarrow>
      hsize (PyInt n) =
        Inr (rjust 3 (digits (nat (round_half_even (of_int n / 1024)))) @ ''KiBytes''))
   \<and> hsize (PyInt 1023) = Inr ''1023 Bytes''
   \<and> hsize (PyInt 1024) = Inr ''  1KiBytes''"
proof (intro conjI impI)
  assume "0 \<le> n \<and> n < 1024"
  then have "\<bar>n\<bar> < 1024" and "\<not> n < 0" and "\<bar>n\<bar> = n" by simp_all
  then show "hsize (PyInt n) = Inr (rjust 3 (digits (nat n)) @ '' Bytes'')"
    using hsize_first_unit [of n] by simp
next
  assume "1024 \<le> n \<and> n < 1024 ^ 2"
  then show "hsize (PyInt n) =
      Inr (rjust 3 (digits (nat (round_half_even (of_int n / 1024)))) @ ''KiBytes'')"
    using hsize_Ki [of n] by simp
next
  show "hsize (PyInt 1023) = Inr ''1023 Bytes''" by code_simp
next
  show "hsize (PyInt 1024) = Inr ''  1KiBytes''" by code_simp
qed

theorem hsize_Bytes_and_Ki_witness:
  "hsize (PyInt 5) = Inr ''  5 Bytes'' \<and> hsize (PyInt 1536) = Inr ''  2KiBytes''
   \<and> hsize (PyInt 2560) = Inr ''  2KiBytes'' \<and> hsize (PyInt 1048575) = Inr ''1024KiBytes''"
proof -
  have a: "rjust 3 (digits (nat 5)) @ '' Bytes'' = ''  5 Bytes''" by code_simp
  have b: "rjust 3 (digits (nat (round_half_even (of_int 1536 / 1024)))) @ ''KiBytes''
      = ''  2KiBytes''" by code_simp
  have c: "rjust 3 (digits (nat (round_half_even (of_int 2560 / 1024)))) @ ''KiBytes''
      = ''  2KiBytes''" by code_simp
  have d: "rjust 3 (digits (nat (round_half_even (of_int 1048575 / 1024)))) @ ''KiBytes''
      = ''1024KiBytes''" by code_simp
  have "hsize (PyInt 5) = Inr (rjust 3 (digits (nat 5)) @ '' Bytes'')"
    using hsize_Bytes_and_Ki [of 5] by simp
  moreover have "hsize (PyInt 1536) =
      Inr (rjust 3 (digits (nat (round_half_even (of_int 1536 / 1024)))) @ ''KiBytes'')"
    using hsize_Bytes_and_Ki [of 1536] by simp
  moreover have "hsize (PyInt 2560) =
      Inr (rjust 3 (digits (nat (round_half_even (of_int 2560 / 1024)))) @ ''KiBytes'')"
    using hsize_Bytes_and_Ki [of 2560] by simp
  moreover have "hsize (PyInt 1048575) =
      Inr (rjust 3 (digits (nat (round_half_even (of_int 1048575 / 1024)))) @ ''KiBytes'')"
    using hsize_Bytes_and_Ki [of 1048575] by simp
  ultimately show ?thesis by (simp only: a b c d)
qed

text \<open>
  Claim C1 as the specification words it gives \<open>hsize(1024)\<close> a space between \<open>Ki\<close> and
  \<open>Bytes\<close>; the code puts none there.
\<close>

theorem hsize_1024_has_no_space_before_Bytes:
  "hsize (PyInt 1024) \<noteq> Inr ''  1Ki Bytes''"
  by code_simp

text \<open>
  Claim C5, as the code has it. For an input of magnitude at least \<open>1024\<^sup>8\<close> no unit of
  the list is accepted and \<open>hsize\<close> never returns a string. Every float, and every int
  that converts to a float (every int of magnitude below \<open>2\<^sup>1\<^sup>0\<^sup>2\<^sup>3\<close> does), reaches the
  statement after the loop, which raises \<open>NameError\<close> for the unbound name \<open>num\<close>. An
  int that does not convert to a float (every int of magnitude at least \<open>2\<^sup>1\<^sup>0\<^sup>2\<^sup>4\<close>)
  raises \<open>OverflowError\<close> in the first division and never reaches that statement.
\<close>

theorem hsize_Yi_fallback_raises:
  "(1024 ^ 8 \<le> \<bar>n\<bar> \<longrightarrow>
      (\<forall>s. hsize (PyInt n) \<noteq> Inr s)
      \<and> (py_float n \<noteq> Inl OverflowError \<longrightarrow> hsize (PyInt n) = Inl NameError)
      \<and> (py_float n = Inl OverflowError \<longrightarrow> hsize (PyInt n) = Inl OverflowError)
      \<and> (\<bar>n\<bar> < 2 ^ 1023 \<longrightarrow> hsize (PyInt n) = Inl NameError)
      \<and> (2 ^ 1024 \<le> \<bar>n\<bar> \<longrightarrow> hsize (PyInt n) = Inl OverflowError))
   \<and> (1024 ^ 8 \<le> \<bar>x\<bar> \<longrightarrow> hsize (PyFloat x) = Inl NameError)"
proof (intro conjI impI)
  assume big: "1024 ^ 8 \<le> \<bar>n\<bar>" and "\<bar>n\<bar> < 2 ^ 1023"
  then obtain y where "py_float n = Inr y" using py_float_converts [of n] by blast
  with hsize_all_units_exceeded [OF big] show "hsize (PyInt n) = Inl NameError" by simp
next
  assume big: "1024 ^ 8 \<le> \<bar>n\<bar>" and "2 ^ 1024 \<le> \<bar>n\<bar>"
  then have "py_float n = Inl OverflowError" by (simp add: py_float_overflows)
  with hsize_all_units_exceeded [OF big] show "hsize (PyInt n) = Inl OverflowError" by simp
next
  assume big: "1024 ^ 8 \<le> \<bar>n\<bar>" and "py_float n = Inl OverflowError"
  with hsize_all_units_exceeded [OF big] show "hsize (PyInt n) = Inl OverflowError" by simp
next
  assume big: "1024 ^ 8 \<le> \<bar>n\<bar>"
  from hsize_all_units_exceeded [OF big] show "\<forall>s. hsize (PyInt n) \<noteq> Inr s"
    by (simp split: sum.splits)
next
  assume big: "1024 ^ 8 \<le> \<bar>n\<bar>" and "py_float n \<noteq> Inl OverflowError"
  with py_float_cases [of n] obtain y where "py_float n = Inr y" by auto
  with hsize_all_units_exceeded [OF big] show "hsize (PyInt n) = Inl NameError" by simp
next
  assume "1024 ^ 8 \<le> \<bar>x\<bar>"
  then have "1024 ^ length hsize_units \<le> \<bar>x\<bar>" by (simp add: hsize_units_def)
  then show "hsize (PyFloat x) = Inl NameError"
    unfolding hsize_def by (rule hsize_loop_exhausted)
qed

theorem hsize_Yi_fallback_raises_witness:
  "hsize (PyInt (1024 ^ 8)) = Inl NameError \<and> hsize (PyFloat (1024 ^ 8)) = Inl NameError
   \<and> hsize (PyInt (- (1024 ^ 8))) = Inl NameError
   \<and> hsize (PyInt (2 ^ 1030)) = Inl OverflowError"
proof -
  have a: "(1024::int) ^ 8 \<le> \<bar>1024 ^ 8\<bar> \<and> \<bar>1024 ^ 8 :: int\<bar> < 2 ^ 1023" by simp
  have b: "(1024::int) ^ 8 \<le> \<bar>- (1024 ^ 8)\<bar> \<and> \<bar>- (1024 ^ 8) :: int\<bar> < 2 ^ 1023" by simp
  have c: "(1024::int) ^ 8 \<le> \<bar>2 ^ 1030\<bar> \<and> (2::int) ^ 1024 \<le> \<bar>2 ^ 1030\<bar>" by simp
  have d: "(1024::rat) ^ 8 \<le> \<bar>1024 ^ 8\<bar>" by simp
  from a hsize_Yi_fallback_raises [of "1024 ^ 8" "1024 ^ 8"]
  have 1: "hsize (PyInt (1024 ^ 8)) = Inl NameError" by blast
  from d hsize_Yi_fallback_raises [of "1024 ^ 8" "1024 ^ 8"]
  have 2: "hsize (PyFloat (1024 ^ 8)) = Inl NameError" by blast
  from b hsize_Yi_fallback_raises [of "- (1024 ^ 8)" "1024 ^ 8"]
  have 3: "hsize (PyInt (- (1024 ^ 8))) = Inl NameError" by blast
  from c hsize_Yi_fallback_raises [of "2 ^ 1030" "1024 ^ 8"]
  have 4: "hsize (PyInt (2 ^ 1030)) = Inl OverflowError" by blast
  from 1 2 3 4 show ?thesis by (intro conjI)
qed

text \<open>
  Claim C5 as the specification words it has every input of magnitude at least
  \<open>1024\<^sup>8\<close> reach the fallback. The int \<open>2\<^sup>1\<^sup>0\<^sup>2\<^sup>4\<close> does not: its conversion to float fails in
  the first division.
\<close>

theorem hsize_huge_int_raises_OverflowError:
  "hsize (PyInt (2 ^ 1024)) = Inl OverflowError \<and> hsize (PyInt (2 ^ 1024)) \<noteq> Inl NameError"
  by code_simp

text \<open>
  Claim C9. For a negative integer \<open>-1024 < n < 0\<close> the first test \<open>abs(fsize) < 1024.0\<close>
  succeeds, and \<open>hsize\<close> returns the minus sign and the digits of \<open>-n\<close>, padded on the left
  to at least 3 characters, followed by the first unit (a single space) and \<open>Bytes\<close>:
  \<open>hsize(-500)\<close> is \<open>-500 Bytes\<close>.
\<close>

theorem hsize_negative_keeps_sign:
  "(- 1024 < n \<and> n < 0 \<longrightarrow>
      hsize (PyInt n) = Inr (rjust 3 (CHR ''-'' # digits (nat (- n))) @ '' Bytes''))
   \<and> hsize (PyInt (- 500)) = Inr ''-500 Bytes''"
proof (intro conjI impI)
  assume "- 1024 < n \<and> n < 0"
  then have "\<bar>n\<bar> < 1024" and "n < 0" and "\<bar>n\<bar> = - n" by simp_all
  then show "hsize (PyInt n) = Inr (rjust 3 (CHR ''-'' # digits (nat (- n))) @ '' Bytes'')"
    using hsize_first_unit [of n] by simp
next
  show "hsize (PyInt (- 500)) = Inr ''-500 Bytes''" by code_simp
qed

theorem hsize_negative_keeps_sign_witness:
  "hsize (PyInt (- 5)) = Inr '' -5 Bytes'' \<and> hsize (PyInt (- 1023)) = Inr ''-1023 Bytes''"
proof -
  have a: "rjust 3 (CHR ''-'' # digits (nat (- (- 5)))) @ '' Bytes'' = '' -5 Bytes''"
    by code_simp
  have b: "rjust 3 (CHR ''-'' # digits (nat (- (- 1023)))) @ '' Bytes'' = ''-1023 Bytes''"
    by code_simp
  have "hsize (PyInt (- 5)) = Inr (rjust 3 (CHR ''-'' # digits (nat (- (- 5)))) @ '' Bytes'')"
    using hsize_negative_keeps_sign [of "- 5"] by simp
  moreover have "hsize (PyInt (- 1023)) =
      Inr (rjust 3 (CHR ''-'' # digits (nat (- (- 1023)))) @ '' Bytes'')"
    using hsize_negative_keeps_sign [of "- 1023"] by simp
  ultimately show ?thesis by (simp only: a b)
qed

section \<open>Properties of theme and mkcontext\<close>

lemma theme_hit: "themes g k = Some v \<Longrightarrow> theme g (Some k) out = (Inr v, out)"
  by (simp add: theme_def themes_getitem_def)

lemma theme_miss:
  \<open>themes_getitem g tname = Inl KeyError \<Longrightarrow>
   theme g tname out =
     (themes_getitem g (Some ''default''),
      out @ [''lib.py WARNING: Theme "'' @ str_of_name tname @ ''" not found, using default''])\<close>
  by (simp add: theme_def printe_def)

lemma themes_getitem_cases:
  "themes_getitem g tname = Inl KeyError \<or> (\<exists>v. themes_getitem g tname = Inr v)"
  by (simp add: themes_getitem_def split: option.splits)

lemma mkcontext_returns:
  assumes "fst (theme g (COOKIES req ''theme'') out) = Inr st"
  shows "\<exists>ctx out'. mkcontext g req title scripts out = (Inr ctx, out')
     \<and> ctx ''styling'' = Some (CTheme st) \<and> ctx ''title'' = Some (CStr title)
     \<and> ctx ''ver'' = Some (CStr (version g))
     \<and> ctx ''fa'' = Some (CBool (scripts = ''font'' \<or> scripts = ''table''))
     \<and> ctx ''jq'' = Some (CBool (scripts = ''form'' \<or> scripts = ''table''))
     \<and> ctx ''ts'' = Some (CBool (scripts = ''table''))
     \<and> ctx ''s2'' = Some (CBool (scripts = ''form''))"
proof -
  obtain out1 where t: "theme g (COOKIES req ''theme'') out = (Inr st, out1)"
    using assms by (cases "theme g (COOKIES req ''theme'') out") simp
  obtain m out2 where m: "getconfig g ''misc'' out1 = (m, out2)" by force
  obtain nb out3 where nb: "getconfig g ''navbar'' out2 = (nb, out3)" by force
  show ?thesis
    unfolding mkcontext_def by (simp add: t m nb Let_def)
qed

lemma mkcontext_raises:
  assumes "fst (theme g (COOKIES req ''theme'') out) = Inl e"
  shows "fst (mkcontext g req title scripts out) = Inl e"
proof -
  obtain out1 where t: "theme g (COOKIES req ''theme'') out = (Inl e, out1)"
    using assms by (cases "theme g (COOKIES req ''theme'') out") simp
  show ?thesis unfolding mkcontext_def by (simp add: t)
qed

text \<open>
  Claim C3. For a theme name that is not in the registry, \<open>theme\<close> prints one warning and
  returns the registry's \<open>default\<close> entry, the value \<open>theme("default")\<close> returns, provided
  the registry has that entry; when it has not, the call raises \<open>KeyError\<close>, the warning
  already printed.
\<close>

theorem theme_falls_back_to_default:
  \<open>(themes g name = None \<and> themes g ''default'' = Some d \<longrightarrow>
      theme g (Some name) out =
        (Inr d, out @ [''lib.py WARNING: Theme "'' @ name @ ''" not found, using default''])
      \<and> fst (theme g (Some name) out) = fst (theme g (Some ''default'') out))
   \<and> (themes g name = None \<and> themes g ''default'' = None \<longrightarrow>
      theme g (Some name) out =
        (Inl KeyError, out @ [''lib.py WARNING: Theme "'' @ name @ ''" not found, using default'']))\<close>
proof (intro conjI impI)
  assume a: "themes g name = None \<and> themes g ''default'' = Some d"
  then have miss: "themes_getitem g (Some name) = Inl KeyError" by (simp add: themes_getitem_def)
  from a have dflt: "themes_getitem g (Some ''default'') = Inr d" by (simp add: themes_getitem_def)
  show r: \<open>theme g (Some name) out =
      (Inr d, out @ [''lib.py WARNING: Theme "'' @ name @ ''" not found, using default''])\<close>
    using theme_miss [OF miss, of out] by (simp add: dflt str_of_name_def)
  from a have "theme g (Some ''default'') out = (Inr d, out)" by (simp add: theme_hit)
  with r show "fst (theme g (Some name) out) = fst (theme g (Some ''default'') out)" by simp
next
  assume a: "themes g name = None \<and> themes g ''default'' = None"
  then have miss: "themes_getitem g (Some name) = Inl KeyError" by (simp add: themes_getitem_def)
  from a have dflt: "themes_getitem g (Some ''default'') = Inl KeyError"
    by (simp add: themes_getitem_def)
  show \<open>theme g (Some name) out =
      (Inl KeyError, out @ [''lib.py WARNING: Theme "'' @ name @ ''" not found, using default''])\<close>
    using theme_miss [OF miss, of out] by (simp add: dflt str_of_name_def)
qed

theorem theme_falls_back_to_default_witness:
  \<open>theme \<lparr>jsondata = Map.empty :: string \<rightharpoonup> unit,
           themes = [''default'' \<mapsto> ''light.css'', ''dark'' \<mapsto> ''dark.css''], version = ''1''\<rparr>
      (Some ''nonexistent'') []
     = (Inr ''light.css'', [''lib.py WARNING: Theme "nonexistent" not found, using default''])
   \<and> fst (theme \<lparr>jsondata = Map.empty :: string \<rightharpoonup> unit,
           themes = [''default'' \<mapsto> ''light.css'', ''dark'' \<mapsto> ''dark.css''], version = ''1''\<rparr>
      (Some ''nonexistent'') [])
     = fst (theme \<lparr>jsondata = Map.empty :: string \<rightharpoonup> unit,
           themes = [''default'' \<mapsto> ''light.css'', ''dark'' \<mapsto> ''dark.css''], version = ''1''\<rparr>
      (Some ''default'') [])
   \<and> theme \<lparr>jsondata = Map.empty :: string \<rightharpoonup> unit,
           themes = [''dark'' \<mapsto> ''dark.css''], version = ''1''\<rparr>
      (Some ''nonexistent'') []
     = (Inl KeyError, [''lib.py WARNING: Theme "nonexistent" not found, using default''])\<close>
proof -
  let ?g1 = "\<lparr>jsondata = Map.empty :: string \<rightharpoonup> unit,
           themes = [''default'' \<mapsto> ''light.css'', ''dark'' \<mapsto> ''dark.css''], version = ''1''\<rparr>"
  let ?g2 = "\<lparr>jsondata = Map.empty :: string \<rightharpoonup> unit,
           themes = [''dark'' \<mapsto> ''dark.css''], version = ''1''\<rparr>"
  have p1: "themes ?g1 ''nonexistent'' = None \<and> themes ?g1 ''default'' = Some ''light.css''"
    by simp
  have p2: "themes ?g2 ''nonexistent'' = None \<and> themes ?g2 ''default'' = None"
    by simp
  from theme_falls_back_to_default [of ?g1 "''nonexistent''" "''light.css''" "[]"] p1
  have a: \<open>theme ?g1 (Some ''nonexistent'') [] =
        (Inr ''light.css'', [] @ [''lib.py WARNING: Theme "'' @ ''nonexistent'' @ ''" not found, using default''])
      \<and> fst (theme ?g1 (Some ''nonexistent'') []) = fst (theme ?g1 (Some ''default'') [])\<close>
    by blast
  from theme_falls_back_to_default [of ?g2 "''nonexistent''" "''light.css''" "[]"] p2
  have b: \<open>theme ?g2 (Some ''nonexistent'') [] =
        (Inl KeyError, [] @ [''lib.py WARNING: Theme "'' @ ''nonexistent'' @ ''" not found, using default''])\<close>
    by blast
  have a1: \<open>theme ?g1 (Some ''nonexistent'') [] =
      (Inr ''light.css'', [''lib.py WARNING: Theme "nonexistent" not found, using default''])\<close>
    using a [THEN conjunct1] by (simp only: append.simps)
  have b1: \<open>theme ?g2 (Some ''nonexistent'') [] =
      (Inl KeyError, [''lib.py WARNING: Theme "nonexistent" not found, using default''])\<close>
    using b by (simp only: append.simps)
  from a1 a [THEN conjunct2] b1 show ?thesis by (intro conjI)
qed

text \<open>
  Claim C4, as the code has it. \<open>mkcontext\<close> first resolves the theme of the request's
  cookie. When that lookup returns, \<open>mkcontext\<close> returns a mapping whose flags \<open>fa\<close>, \<open>jq\<close>,
  \<open>ts\<close>, \<open>s2\<close> are those of the table: \<open>font\<close> gives true, false, false, false;
  \<open>form\<close> gives false, true, false, true; \<open>table\<close> gives true, true, true, false; any other
  value gives four times false. When the lookup raises \<open>KeyError\<close>, so does \<open>mkcontext\<close>.
\<close>

theorem mkcontext_flags:
  "(fst (theme g (COOKIES req ''theme'') out) = Inr st \<longrightarrow>
      (\<exists>ctx out'. mkcontext g req title scripts out = (Inr ctx, out')
        \<and> map ctx [''fa'', ''jq'', ''ts'', ''s2''] =
            map (\<lambda>b. Some (CBool b))
              (if scripts = ''font'' then [True, False, False, False]
               else if scripts = ''form'' then [False, True, False, True]
               else if scripts = ''table'' then [True, True, True, False]
               else [False, False, False, False])))
   \<and> (fst (theme g (COOKIES req ''theme'') out) = Inl KeyError \<longrightarrow>
        fst (mkcontext g req title scripts out) = Inl KeyError)"
proof (intro conjI impI)
  assume "fst (theme g (COOKIES req ''theme'') out) = Inr st"
  from mkcontext_returns [OF this, of title scripts]
  obtain ctx out' where r: "mkcontext g req title scripts out = (Inr ctx, out')"
    and f: "ctx ''fa'' = Some (CBool (scripts = ''font'' \<or> scripts = ''table''))"
      "ctx ''jq'' = Some (CBool (scripts = ''form'' \<or> scripts = ''table''))"
      "ctx ''ts'' = Some (CBool (scripts = ''table''))"
      "ctx ''s2'' = Some (CBool (scripts = ''form''))"
    by blast
  have "map ctx [''fa'', ''jq'', ''ts'', ''s2''] =
            map (\<lambda>b. Some (CBool b))
              (if scripts = ''font'' then [True, False, False, False]
               else if scripts = ''form'' then [False, True, False, True]
               else if scripts = ''table'' then [True, True, True, False]
               else [False, False, False, False])"
    by (simp add: f)
  with r show "\<exists>ctx out'. mkcontext g req title scripts out = (Inr ctx, out')
        \<and> map ctx [''fa'', ''jq'', ''ts'', ''s2''] =
            map (\<lambda>b. Some (CBool b))
              (if scripts = ''font'' then [True, False, False, False]
               else if scripts = ''form'' then [False, True, False, True]
               else if scripts = ''table'' then [True, True, True, False]
               else [False, False, False, False])"
    by blast
next
  assume "fst (theme g (COOKIES req ''theme'') out) = Inl KeyError"
  then show "fst (mkcontext g req title scripts out) = Inl KeyError" by (rule mkcontext_raises)
qed


theorem mkcontext_flags_witness:
  "(\<exists>ctx out'.
      mkcontext \<lparr>jsondata = [''misc'' \<mapsto> ()],
                 themes = [''default'' \<mapsto> ''light.css'', ''dark'' \<mapsto> ''dark.css''],
                 version = ''1''\<rparr>
        \<lparr>COOKIES = [''theme'' \<mapsto> ''dark'']\<rparr> ''Home'' ''table'' [] = (Inr ctx, out')
      \<and> map ctx [''fa'', ''jq'', ''ts'', ''s2''] =
          [Some (CBool True), Some (CBool True), Some (CBool True), Some (CBool False)])
   \<and> (\<exists>ctx out'.
      mkcontext \<lparr>jsondata = [''misc'' \<mapsto> ()],
                 themes = [''default'' \<mapsto> ''light.css'', ''dark'' \<mapsto> ''dark.css''],
                 version = ''1''\<rparr>
        \<lparr>COOKIES = Map.empty\<rparr> ''Home'' ''unknown'' [] = (Inr ctx, out')
      \<and> map ctx [''fa'', ''jq'', ''ts'', ''s2''] =
          [Some (CBool False), Some (CBool False), Some (CBool False), Some (CBool False)])
   \<and> fst (mkcontext \<lparr>jsondata = [''misc'' \<mapsto> ()],
                 themes = [''dark'' \<mapsto> ''dark.css''], version = ''1''\<rparr>
        \<lparr>COOKIES = Map.empty\<rparr> ''Home'' ''table'' []) = Inl KeyError"
proof -
  let ?g1 = "\<lparr>jsondata = [''misc'' \<mapsto> ()],
                 themes = [''default'' \<mapsto> ''light.css'', ''dark'' \<mapsto> ''dark.css''],
                 version = ''1''\<rparr>"
  let ?g2 = "\<lparr>jsondata = [''misc'' \<mapsto> ()],
                 themes = [''dark'' \<mapsto> ''dark.css''], version = ''1''\<rparr>"
  let ?r1 = "\<lparr>COOKIES = [''theme'' \<mapsto> ''dark'']\<rparr>"
  let ?r2 = "\<lparr>COOKIES = Map.empty\<rparr>"
  have p1: "fst (theme ?g1 (COOKIES ?r1 ''theme'') []) = Inr ''dark.css''"
    by (simp add: theme_def themes_getitem_def)
  have p2: "fst (theme ?g1 (COOKIES ?r2 ''theme'') []) = Inr ''light.css''"
    by (simp add: theme_def themes_getitem_def)
  have p3: "fst (theme ?g2 (COOKIES ?r2 ''theme'') []) = Inl KeyError"
    by (simp add: theme_def themes_getitem_def)
  have a: "\<exists>ctx out'. mkcontext ?g1 ?r1 ''Home'' ''table'' [] = (Inr ctx, out')
      \<and> map ctx [''fa'', ''jq'', ''ts'', ''s2''] =
          [Some (CBool True), Some (CBool True), Some (CBool True), Some (CBool False)]"
    using mkcontext_flags [where g = ?g1 and req = ?r1 and out = "[]" and st = "''dark.css''"
        and title = "''Home''" and scripts = "''table''"] p1
    by simp
  have b: "\<exists>ctx out'. mkcontext ?g1 ?r2 ''Home'' ''unknown'' [] = (Inr ctx, out')
      \<and> map ctx [''fa'', ''jq'', ''ts'', ''s2''] =
          [Some (CBool False), Some (CBool False), Some (CBool False), Some (CBool False)]"
    using mkcontext_flags [where g = ?g1 and req = ?r2 and out = "[]" and st = "''light.css''"
        and title = "''Home''" and scripts = "''unknown''"] p2
    by simp
  have c: "fst (mkcontext ?g2 ?r2 ''Home'' ''table'' []) = Inl KeyError"
    using mkcontext_flags [where g = ?g2 and req = ?r2 and out = "[]" and st = "''light.css''"
        and title = "''Home''" and scripts = "''table''"] p3
    by blast
  from a b c show ?thesis by (intro conjI)
qed

text \<open>
  Claim C4 as the specification words it promises a mapping for every request. With the
  empty registry, the one \<open>lib.py\<close> itself installs when \<open>themecfg.json\<close> does not exist,
  \<open>mkcontext\<close> raises \<open>KeyError\<close> and returns no mapping.
\<close>

theorem mkcontext_raises_on_empty_registry:
  "fst (mkcontext \<lparr>jsondata = [''misc'' \<mapsto> ()], themes = Map.empty :: string \<rightharpoonup> string,
                    version = ''1''\<rparr>
         \<lparr>COOKIES = [''theme'' \<mapsto> ''dark'']\<rparr> ''Home'' ''table'' []) = Inl KeyError"
  by (simp add: mkcontext_def theme_def themes_getitem_def)

section \<open>Properties of configmodels\<close>

lemma colname_loop:
  "for_each colname_body ys acc out = (Inr cols, out') \<Longrightarrow>
   map Some cols = map Some acc @ map (\<lambda>y. y ''col'') ys \<and> out' = out"
proof (induction ys arbitrary: acc out)
  case Nil
  then show ?case by simp
next
  case (Cons y ys)
  show ?case
  proof (cases "y ''col''")
    case None
    then have "colname_body y acc out = (Inl KeyError, out)"
      by (simp add: colname_body_def getitem_def)
    with Cons.prems show ?thesis by simp
  next
    case (Some c)
    then have "colname_body y acc out = (Inr (acc @ [c]), out)"
      by (simp add: colname_body_def getitem_def)
    with Cons.prems have rest: "for_each colname_body ys (acc @ [c]) out = (Inr cols, out')"
      by simp
    from Cons.IH [OF rest] Some show ?thesis by simp
  qed
qed

lemma colname_loops:
  "for_each (\<lambda>(x, dbconfig). for_each colname_body dbconfig) tbl acc out = (Inr cols, out') \<Longrightarrow>
   map Some cols = map Some acc @ concat (map (\<lambda>(x, ys). map (\<lambda>y. y ''col'') ys) tbl)
   \<and> out' = out"
proof (induction tbl arbitrary: acc out)
  case Nil
  then show ?case by simp
next
  case (Cons g tbl)
  obtain x ys where g: "g = (x, ys)" by (cases g)
  from Cons.prems g obtain acc1 out1 where
    inner: "for_each colname_body ys acc out = (Inr acc1, out1)"
    and rest: "for_each (\<lambda>(x, dbconfig). for_each colname_body dbconfig) tbl acc1 out1 = (Inr cols, out')"
    by (auto split: prod.splits sum.splits)
  from colname_loop [OF inner] Cons.IH [OF rest] g show ?case by simp
qed

lemma for_each_returns:
  assumes "\<And>x s p. x \<in> set xs \<Longrightarrow> \<exists>s' p'. body x s p = (Inr s', p')"
  shows "\<exists>s' p'. for_each body xs s p = (Inr s', p')"
  using assms
proof (induction xs arbitrary: s p)
  case Nil
  show ?case by simp
next
  case (Cons x xs)
  from Cons.prems [of x s p] obtain s1 p1 where b: "body x s p = (Inr s1, p1)" by auto
  have "\<exists>s' p'. for_each body xs s1 p1 = (Inr s', p')"
    by (rule Cons.IH) (rule Cons.prems, simp)
  with b show ?case by simp
qed

lemma column_body_returns:
  assumes "column_ok y"
  shows "\<exists>s' p'. column_body x y st out = (Inr s', p')"
proof -
  from assms obtain d c where dt: "y ''datatype'' = Some (JStr d)" and c: "y ''col'' = Some c"
    by (auto simp: column_ok_def split: option.splits jval.splits)
  show ?thesis
  proof (cases "sublist d ''select''")
    case True
    with assms dt c obtain dd where "y ''ddfile'' = Some dd" by (auto simp: column_ok_def)
    with True dt c show ?thesis by (simp add: column_body_def getitem_def Let_def)
  next
    case False
    show ?thesis
    proof (cases "d = ''string''")
      case True
      with False assms dt c obtain m where "y ''max'' = Some m" by (auto simp: column_ok_def)
      with True False dt c show ?thesis by (simp add: column_body_def getitem_def Let_def)
    next
      case ns: False
      with False dt c show ?thesis by (simp add: column_body_def getitem_def Let_def)
    qed
  qed
qed

lemma colname_body_returns:
  assumes "column_ok y"
  shows "\<exists>s' p'. colname_body y acc out = (Inr s', p')"
proof -
  from assms obtain c where "y ''col'' = Some c"
    by (auto simp: column_ok_def split: option.splits jval.splits)
  then show ?thesis by (simp add: colname_body_def getitem_def)
qed

lemma configmodels_returns:
  assumes ok: "\<forall>g \<in> set (table jc). \<forall>y \<in> set (snd g). column_ok y"
  shows "\<exists>r. fst (configmodels jc out) = Inr r"
proof -
  have "\<exists>st p. for_each (\<lambda>(x, dbconfig). for_each (column_body x) dbconfig) (table jc)
            \<lparr>table_text = [], cfgdata = Map.empty\<rparr> out = (Inr st, p)"
  proof (rule for_each_returns)
    fix g s p
    assume g: "g \<in> set (table jc)"
    obtain x ys where gx: "g = (x, ys)" by (cases g)
    have "\<exists>s' p'. for_each (column_body x) ys s p = (Inr s', p')"
    proof (rule for_each_returns)
      fix y s1 p1
      assume "y \<in> set ys"
      with ok g gx have "column_ok y" by auto
      then show "\<exists>s' p'. column_body x y s1 p1 = (Inr s', p')" by (rule column_body_returns)
    qed
    with gx show "\<exists>s' p'. (case g of (x, dbconfig) \<Rightarrow> for_each (column_body x) dbconfig) s p
        = (Inr s', p')" by simp
  qed
  then obtain st p where 1:
    "for_each (\<lambda>(x, dbconfig). for_each (column_body x) dbconfig) (table jc)
            \<lparr>table_text = [], cfgdata = Map.empty\<rparr> out = (Inr st, p)" by blast
  have "\<exists>cols p'. for_each (\<lambda>(x, dbconfig). for_each colname_body dbconfig) (table jc) [] p
      = (Inr cols, p')"
  proof (rule for_each_returns)
    fix g s q
    assume g: "g \<in> set (table jc)"
    obtain x ys where gx: "g = (x, ys)" by (cases g)
    have "\<exists>s' p'. for_each colname_body ys s q = (Inr s', p')"
    proof (rule for_each_returns)
      fix y s1 p1
      assume "y \<in> set ys"
      with ok g gx have "column_ok y" by auto
      then show "\<exists>s' p'. colname_body y s1 p1 = (Inr s', p')" by (rule colname_body_returns)
    qed
    with gx show "\<exists>s' p'. (case g of (x, dbconfig) \<Rightarrow> for_each colname_body dbconfig) s q
        = (Inr s', p')" by simp
  qed
  then obtain cols p' where 2:
    "for_each (\<lambda>(x, dbconfig). for_each colname_body dbconfig) (table jc) [] p = (Inr cols, p')"
    by blast
  show ?thesis by (simp add: configmodels_def 1 2 Let_def)
qed

lemma column_body_substring_of_select:
  \<open>y ''datatype'' = Some (JStr d) \<Longrightarrow> y ''col'' = Some c \<Longrightarrow> y ''ddfile'' = Some dd \<Longrightarrow>
   sublist d ''select'' \<Longrightarrow>
   column_body x y st out =
     (Inr (st\<lparr>cfgdata := (cfgdata st)(c \<mapsto> y),
              table_text := table_text st @
                field_lines c
                  (''CharField(blank = True, max_length = 128, choices = Choices.totuplelist("''
                    @ py_str dd @ ''"))'') x\<rparr>), out)\<close>
  by (simp add: column_body_def getitem_def Let_def)

lemma column_body_unknown_datatype:
  \<open>y ''datatype'' = Some (JStr d) \<Longrightarrow> y ''col'' = Some c \<Longrightarrow>
   \<not> sublist d ''select'' \<Longrightarrow> d \<noteq> ''string'' \<Longrightarrow> d \<noteq> ''text'' \<Longrightarrow> d \<noteq> ''date'' \<Longrightarrow>
   column_body x y st out =
     (Inr (st\<lparr>cfgdata := (cfgdata st)(c \<mapsto> y)\<rparr>),
      out @ [''WARNING: Unknown datatype "'' @ d @ ''", skipping''])\<close>
  by (simp add: column_body_def getitem_def py_print_def Let_def)

lemmas configmodels_eval =
  configmodels_def column_body_def colname_body_def getitem_def field_lines_def py_print_def
  sublist_code prefix_code Let_def

text \<open>
  Claim C2, evaluated on the code. The first test of the column loop is \<open>dt in "select"\<close>,
  a substring test, where the tests after it compare with \<open>==\<close>. A column whose datatype
  is \<open>sel\<close>, none of the four recognised values, gets a \<open>CharField\<close> declaration and no
  warning is printed; without a \<open>ddfile\<close> attribute the same column raises \<open>KeyError\<close>
  and ends the generation. A datatype that is no part of \<open>select\<close>, such as \<open>blob\<close>, is
  skipped with the warning.
\<close>

theorem configmodels_substring_datatype:
  \<open>map_sum id tpl_table (fst (configmodels
       \<lparr>table = [(''main'',
           [[''col'' \<mapsto> JStr ''name'', ''datatype'' \<mapsto> JStr ''sel'', ''ddfile'' \<mapsto> JStr ''d'']])],
        basecss = ''base.css''\<rparr> []))
     = Inr (''    name = models.CharField(blank = True, max_length = 128, choices = Choices.totuplelist("d"))''
            @ nl @ ''    name.group = "main"'' @ nl)
   \<and> snd (configmodels
       \<lparr>table = [(''main'',
           [[''col'' \<mapsto> JStr ''name'', ''datatype'' \<mapsto> JStr ''sel'', ''ddfile'' \<mapsto> JStr ''d'']])],
        basecss = ''base.css''\<rparr> []) = []
   \<and> configmodels
       \<lparr>table = [(''main'', [[''col'' \<mapsto> JStr ''name'', ''datatype'' \<mapsto> JStr ''sel'']])],
        basecss = ''base.css''\<rparr> [] = (Inl KeyError, [])
   \<and> map_sum id tpl_table (fst (configmodels
       \<lparr>table = [(''main'', [[''col'' \<mapsto> JStr ''name'', ''datatype'' \<mapsto> JStr ''blob'']])],
        basecss = ''base.css''\<rparr> [])) = Inr []
   \<and> snd (configmodels
       \<lparr>table = [(''main'', [[''col'' \<mapsto> JStr ''name'', ''datatype'' \<mapsto> JStr ''blob'']])],
        basecss = ''base.css''\<rparr> []) = [''WARNING: Unknown datatype "blob", skipping'']\<close>
  by (simp add: configmodels_eval)

text \<open>
  Claim C10. \<open>configmodels\<close> returns for every schema whose columns have the attributes
  the column loop reads. Whenever it returns, the list of column names it embeds is
  \<open>inid\<close>, then the \<open>col\<close> attribute of every configured column in the order of the
  schema, whatever its datatype, then \<open>tcrd\<close> and \<open>tmod\<close>; and \<open>todict\<close> is built from
  that same list.
\<close>

theorem configmodels_colnames:
  "((\<forall>g \<in> set (table jc). \<forall>y \<in> set (snd g). column_ok y) \<longrightarrow>
      (\<exists>r. fst (configmodels jc out) = Inr r))
   \<and> (fst (configmodels jc out) = Inr r \<longrightarrow>
      map Some (tpl_colnames r) =
        Some (JStr ''inid'') # concat (map (\<lambda>(x, ys). map (\<lambda>y. y ''col'') ys) (table jc))
          @ [Some (JStr ''tcrd''), Some (JStr ''tmod'')]
      \<and> tpl_todict r = todict_text (tpl_colnames r))"
proof (intro conjI impI)
  assume "\<forall>g \<in> set (table jc). \<forall>y \<in> set (snd g). column_ok y"
  then show "\<exists>r. fst (configmodels jc out) = Inr r" by (rule configmodels_returns)
next
  assume a: "fst (configmodels jc out) = Inr r"
  then obtain cols out1 out2 where
    l: "for_each (\<lambda>(x, dbconfig). for_each colname_body dbconfig) (table jc) [] out1 = (Inr cols, out2)"
    and r: "tpl_colnames r = ([JStr ''inid''] @ cols) @ [JStr ''tcrd''] @ [JStr ''tmod'']"
    and t: "tpl_todict r = todict_text (tpl_colnames r)"
    unfolding configmodels_def Let_def
    by (auto split: prod.splits sum.splits)
  from colname_loops [OF l] r
  show "map Some (tpl_colnames r) =
        Some (JStr ''inid'') # concat (map (\<lambda>(x, ys). map (\<lambda>y. y ''col'') ys) (table jc))
          @ [Some (JStr ''tcrd''), Some (JStr ''tmod'')]"
    by simp
  from t show "tpl_todict r = todict_text (tpl_colnames r)" .
qed

theorem configmodels_colnames_witness:
  \<open>\<exists>r. fst (configmodels
          \<lparr>table = [(''main'',
              [[''col'' \<mapsto> JStr ''name'', ''datatype'' \<mapsto> JStr ''text''],
               [''col'' \<mapsto> JStr ''photo'', ''datatype'' \<mapsto> JStr ''binary'']])],
           basecss = ''base.css''\<rparr> []) = Inr r
     \<and> tpl_colnames r = [JStr ''inid'', JStr ''name'', JStr ''photo'', JStr ''tcrd'', JStr ''tmod'']
     \<and> tpl_todict r =
         ''{"inid": self.inid, "name": self.name, "photo": self.photo, "tcrd": self.tcrd, "tmod": self.tmod, }''
     \<and> tpl_table r =
         ''    name = models.TextField(blank = True, null = True)'' @ nl @
         ''    name.group = "main"'' @ nl\<close>
proof -
  let ?jc = "\<lparr>table = [(''main'',
              [[''col'' \<mapsto> JStr ''name'', ''datatype'' \<mapsto> JStr ''text''],
               [''col'' \<mapsto> JStr ''photo'', ''datatype'' \<mapsto> JStr ''binary'']])],
           basecss = ''base.css''\<rparr>"
  note t = configmodels_colnames [where jc = ?jc and out = "[]"]
  have ok: "\<forall>g \<in> set (table ?jc). \<forall>y \<in> set (snd g). column_ok y"
    by (simp add: column_ok_def sublist_code prefix_code)
  with t obtain r where r: "fst (configmodels ?jc []) = Inr r" by blast
  have tbl: \<open>map_sum id tpl_table (fst (configmodels ?jc [])) =
      Inr (''    name = models.TextField(blank = True, null = True)'' @ nl @
           ''    name.group = "main"'' @ nl)\<close>
    by (simp add: configmodels_eval)
  from t [where r = r] r
  have c: "map Some (tpl_colnames r) =
      map Some [JStr ''inid'', JStr ''name'', JStr ''photo'', JStr ''tcrd'', JStr ''tmod'']"
    and d: "tpl_todict r = todict_text (tpl_colnames r)"
    by simp_all
  from c have c': "tpl_colnames r = [JStr ''inid'', JStr ''name'', JStr ''photo'', JStr ''tcrd'', JStr ''tmod'']"
    by (simp only: inj_map_eq_map [OF inj_Some])
  have d': \<open>tpl_todict r =
      ''{"inid": self.inid, "name": self.name, "photo": self.photo, "tcrd": self.tcrd, "tmod": self.tmod, }''\<close>
    unfolding d c' by (simp add: todict_text_def)
  from tbl r have e: \<open>tpl_table r =
      ''    name = models.TextField(blank = True, null = True)'' @ nl @
      ''    name.group = "main"'' @ nl\<close>
    by simp
  from r c' d' e show ?thesis by blast
qed

section \<open>Properties of theme discovery\<close>

lemma index_body_missing:
  \<open>\<not> path_exists fs (index_path name) \<Longrightarrow>
   index_body fs name ti out =
     (Inr ti, out @ [''genmodels.py WARNING: Theme "'' @ name @
        ''" does not have a index.json, the theme would not be available''])\<close>
  by (simp add: index_body_def py_print_def)

lemma index_body_invalid:
  \<open>path_exists fs (index_path name) \<Longrightarrow> load_json fs (index_path name) = JSONDecodeError e \<Longrightarrow>
   index_body fs name ti out =
     (Inr ti, out @ [''genmodels.py WARNING: Exception "'' @ e @
        ''" raised by JSON library, the theme would not be available''])\<close>
  by (simp add: index_body_def py_print_def)

lemma index_body_valid:
  "path_exists fs (index_path name) \<Longrightarrow> load_json fs (index_path name) = Parsed doc \<Longrightarrow>
   doc ''theme'' = Some th \<Longrightarrow>
   index_body fs name ti out = (Inr (ti @ [th]), out)"
  by (simp add: index_body_def getitem_def)

lemma index_body_raises:
  "index_raises fs name \<Longrightarrow> \<exists>err. index_body fs name ti out = (Inl err, out)"
  by (auto simp: index_body_def index_raises_def getitem_def split: json_load.splits)

lemma index_body_without_theme:
  "path_exists fs (index_path name) \<Longrightarrow> load_json fs (index_path name) = Parsed doc \<Longrightarrow>
   doc ''theme'' = None \<Longrightarrow>
   index_body fs name ti out = (Inl KeyError, out)"
  by (simp add: index_body_def getitem_def)

lemma index_body_other_error:
  "path_exists fs (index_path name) \<Longrightarrow> load_json fs (index_path name) = Raises err \<Longrightarrow>
   index_body fs name ti out = (Inl err, out)"
  by (simp add: index_body_def)

lemma index_body_usable:
  "\<not> index_raises fs name \<Longrightarrow>
   fst (index_body fs name ti out) = Inr (ti @ (case usable_index fs name of None \<Rightarrow> [] | Some th \<Rightarrow> [th]))
   \<and> length (snd (index_body fs name ti out)) =
       length out + (case usable_index fs name of None \<Rightarrow> 1 | Some th \<Rightarrow> 0)"
  by (auto simp: index_body_def index_raises_def usable_index_def getitem_def py_print_def
      split: json_load.splits option.splits)

lemma index_loop:
  "\<forall>name \<in> set names. \<not> index_raises fs name \<Longrightarrow>
   fst (for_each (index_body fs) names ti out) = Inr (ti @ List.map_filter (usable_index fs) names)
   \<and> length (snd (for_each (index_body fs) names ti out)) =
       length out + length (filter (\<lambda>name. usable_index fs name = None) names)"
proof (induction names arbitrary: ti out)
  case Nil
  show ?case by (simp add: List.map_filter_simps)
next
  case (Cons name names)
  from Cons.prems have ok: "\<not> index_raises fs name"
    and rest: "\<forall>name \<in> set names. \<not> index_raises fs name" by simp_all
  obtain r out1 where b: "index_body fs name ti out = (r, out1)" by force
  from index_body_usable [OF ok, of ti out] b
  have r: "r = Inr (ti @ (case usable_index fs name of None \<Rightarrow> [] | Some th \<Rightarrow> [th]))"
    and o: "length out1 = length out + (case usable_index fs name of None \<Rightarrow> 1 | Some th \<Rightarrow> 0)"
    by simp_all
  from Cons.IH [OF rest, of "ti @ (case usable_index fs name of None \<Rightarrow> [] | Some th \<Rightarrow> [th])" out1]
  show ?case
    by (simp add: b r o List.map_filter_simps split: option.splits)
qed

lemma themedir_names_set:
  assumes "listdir fs ''config/themes'' = Some names" and "distinct names"
  shows "\<exists>ds. themedir_names fs = Inr ds \<and> distinct ds \<and>
    set ds = {f \<in> set names. path_isdir fs (path_join ''config/themes'' f) \<and> f \<noteq> ''common''}"
  using assms by (auto simp: themedir_names_def Let_def)

lemmas themes_fs_eval =
  themes_fs_def themes_fs_later_def dark_theme_def sample_libraries_def sample_config_def
  themedir_names_def path_join_def index_path_def index_raises_def usable_index_def Let_def

text \<open>
  Claim C6, as the code has it. The discovery enumerates every directory of
  \<open>config/themes\<close> but \<open>common\<close>. At a directory without \<open>index.json\<close>, and at one whose
  \<open>index.json\<close> the JSON library rejects with \<open>JSONDecodeError\<close>, the loop prints a
  warning, keeps the list of descriptors as it is and goes on with the remaining
  directories; at a directory whose index is a JSON object with a \<open>theme\<close> entry the
  descriptor is appended. No other exception is caught: an index that is a JSON object
  without a \<open>theme\<close> entry ends the loop with \<open>KeyError\<close>, and any other exception of the
  loading ends it alike. When no index raises such an exception, the discovery returns
  the descriptors of the good indexes in order, with one warning for each directory it
  skipped.
\<close>

theorem discover_themes_skips_and_continues:
  \<open>(listdir fs ''config/themes'' = Some names \<and> distinct names \<longrightarrow>
      (\<exists>ds. themedir_names fs = Inr ds \<and>
        set ds = {f \<in> set names. path_isdir fs (path_join ''config/themes'' f) \<and> f \<noteq> ''common''}))
   \<and> (\<not> path_exists fs (index_path name) \<longrightarrow>
        for_each (index_body fs) (name # rest) ti out =
        for_each (index_body fs) rest ti
          (out @ [''genmodels.py WARNING: Theme "'' @ name @
             ''" does not have a index.json, the theme would not be available'']))
   \<and> (path_exists fs (index_path name) \<and> load_json fs (index_path name) = JSONDecodeError e \<longrightarrow>
        for_each (index_body fs) (name # rest) ti out =
        for_each (index_body fs) rest ti
          (out @ [''genmodels.py WARNING: Exception "'' @ e @
             ''" raised by JSON library, the theme would not be available'']))
   \<and> (path_exists fs (index_path name) \<and> load_json fs (index_path name) = Parsed doc
        \<and> doc ''theme'' = Some th \<longrightarrow>
        for_each (index_body fs) (name # rest) ti out =
        for_each (index_body fs) rest (ti @ [th]) out)
   \<and> (path_exists fs (index_path name) \<and> load_json fs (index_path name) = Parsed doc
        \<and> doc ''theme'' = None \<longrightarrow>
        for_each (index_body fs) (name # rest) ti out = (Inl KeyError, out))
   \<and> (path_exists fs (index_path name) \<and> load_json fs (index_path name) = Raises err \<longrightarrow>
        for_each (index_body fs) (name # rest) ti out = (Inl err, out))
   \<and> (themedir_names fs = Inr themedir
        \<and> (\<forall>d \<in> set themedir. \<not> index_raises fs d) \<longrightarrow>
        fst (discover_themes fs out) = Inr (List.map_filter (usable_index fs) themedir)
        \<and> length (snd (discover_themes fs out)) =
            length out + length (filter (\<lambda>d. usable_index fs d = None) themedir))\<close>
proof (intro conjI impI)
  assume "listdir fs ''config/themes'' = Some names \<and> distinct names"
  then show "\<exists>ds. themedir_names fs = Inr ds \<and>
        set ds = {f \<in> set names. path_isdir fs (path_join ''config/themes'' f) \<and> f \<noteq> ''common''}"
    using themedir_names_set [of fs names] by blast
next
  assume "\<not> path_exists fs (index_path name)"
  then show \<open>for_each (index_body fs) (name # rest) ti out =
        for_each (index_body fs) rest ti
          (out @ [''genmodels.py WARNING: Theme "'' @ name @
             ''" does not have a index.json, the theme would not be available''])\<close>
    by (simp add: index_body_missing)
next
  assume "path_exists fs (index_path name) \<and> load_json fs (index_path name) = JSONDecodeError e"
  then show \<open>for_each (index_body fs) (name # rest) ti out =
        for_each (index_body fs) rest ti
          (out @ [''genmodels.py WARNING: Exception "'' @ e @
             ''" raised by JSON library, the theme would not be available''])\<close>
    by (simp add: index_body_invalid)
next
  assume "path_exists fs (index_path name) \<and> load_json fs (index_path name) = Parsed doc
        \<and> doc ''theme'' = Some th"
  then show "for_each (index_body fs) (name # rest) ti out =
        for_each (index_body fs) rest (ti @ [th]) out"
    by (simp add: index_body_valid)
next
  assume "path_exists fs (index_path name) \<and> load_json fs (index_path name) = Parsed doc
        \<and> doc ''theme'' = None"
  then show "for_each (index_body fs) (name # rest) ti out = (Inl KeyError, out)"
    by (simp add: index_body_without_theme)
next
  assume "path_exists fs (index_path name) \<and> load_json fs (index_path name) = Raises err"
  then show "for_each (index_body fs) (name # rest) ti out = (Inl err, out)"
    by (simp add: index_body_other_error)
next
  assume a: "themedir_names fs = Inr themedir \<and> (\<forall>d \<in> set themedir. \<not> index_raises fs d)"
  then have "\<forall>d \<in> set themedir. \<not> index_raises fs d" by simp
  from index_loop [OF this, of "[]" out] a
  show "fst (discover_themes fs out) = Inr (List.map_filter (usable_index fs) themedir)"
    and "length (snd (discover_themes fs out)) =
            length out + length (filter (\<lambda>d. usable_index fs d = None) themedir)"
    by (simp_all add: discover_themes_def)
qed

theorem discover_themes_skips_and_continues_witness:
  \<open>themedir_names themes_fs = Inr [''dark'', ''broken'', ''empty'']
   \<and> fst (discover_themes themes_fs []) = Inr [dark_theme]
   \<and> length (snd (discover_themes themes_fs [])) = 2
   \<and> for_each (index_body themes_fs) [''broken'', ''empty''] [dark_theme] [] =
       for_each (index_body themes_fs) [''empty''] [dark_theme]
         [''genmodels.py WARNING: Exception "Expecting value: line 1 column 1 (char 0)" raised by JSON library, the theme would not be available'']
   \<and> for_each (index_body themes_fs) [''empty''] [dark_theme] [] =
       (Inr [dark_theme],
        [''genmodels.py WARNING: Theme "empty" does not have a index.json, the theme would not be available''])
   \<and> for_each (index_body themes_fs_nokey) [''nokey'', ''dark''] [] [] = (Inl KeyError, [])\<close>
proof -
  have ds: "themedir_names themes_fs = Inr [''dark'', ''broken'', ''empty'']"
    by (simp add: themes_fs_eval)
  have ok: "\<forall>d \<in> set [''dark'', ''broken'', ''empty'']. \<not> index_raises themes_fs d"
    by (simp add: themes_fs_eval)
  have u: "List.map_filter (usable_index themes_fs) [''dark'', ''broken'', ''empty''] = [dark_theme]"
    by (simp add: themes_fs_eval)
  have n: "length (filter (\<lambda>d. usable_index themes_fs d = None) [''dark'', ''broken'', ''empty'']) = 2"
    by (simp add: themes_fs_eval)
  note t = discover_themes_skips_and_continues
  have a: "fst (discover_themes themes_fs []) = Inr [dark_theme]
      \<and> length (snd (discover_themes themes_fs [])) = 2"
    using t [where fs = themes_fs and themedir = "[''dark'', ''broken'', ''empty'']"
        and out = "[]"] ds ok u n
    by simp
  have pb: "path_exists themes_fs (index_path ''broken'') \<and>
      load_json themes_fs (index_path ''broken'') =
        JSONDecodeError ''Expecting value: line 1 column 1 (char 0)''"
    by (simp add: themes_fs_eval)
  have b: \<open>for_each (index_body themes_fs) [''broken'', ''empty''] [dark_theme] [] =
       for_each (index_body themes_fs) [''empty''] [dark_theme]
         ([] @ [''genmodels.py WARNING: Exception "'' @ ''Expecting value: line 1 column 1 (char 0)'' @
             ''" raised by JSON library, the theme would not be available''])\<close>
    using t [where fs = themes_fs and name = "''broken''" and rest = "[''empty'']"
        and ti = "[dark_theme]" and out = "[]"
        and e = "''Expecting value: line 1 column 1 (char 0)''"] pb
    by blast
  have pe: "\<not> path_exists themes_fs (index_path ''empty'')"
    by (simp add: themes_fs_eval)
  have c: \<open>for_each (index_body themes_fs) [''empty''] [dark_theme] [] =
       for_each (index_body themes_fs) [] [dark_theme]
          ([] @ [''genmodels.py WARNING: Theme "'' @ ''empty'' @
             ''" does not have a index.json, the theme would not be available''])\<close>
    using t [where fs = themes_fs and name = "''empty''" and rest = "[]"
        and ti = "[dark_theme]" and out = "[]"] pe
    by blast
  have pn: "path_exists themes_fs_nokey (index_path ''nokey'') \<and>
      load_json themes_fs_nokey (index_path ''nokey'') = Parsed Map.empty
      \<and> (Map.empty :: string \<rightharpoonup> theme_index) ''theme'' = None"
    by (simp add: themes_fs_nokey_def themes_fs_eval)
  have d: "for_each (index_body themes_fs_nokey) [''nokey'', ''dark''] [] [] = (Inl KeyError, [])"
    using t [where fs = themes_fs_nokey and name = "''nokey''" and rest = "[''dark'']"
        and ti = "[]" and out = "[]" and doc = Map.empty] pn
    by blast
  from ds a b c d show ?thesis by (simp only: append.simps for_each.simps)
qed

text \<open>
  Claim C6 as the specification words it has every invalid index skipped with a warning.
  An index that is valid JSON but holds no \<open>theme\<close> entry is not skipped: the discovery
  raises \<open>KeyError\<close>, the theme found before it is lost and nothing is printed.
\<close>

theorem discover_themes_index_without_theme_is_fatal:
  "discover_themes themes_fs_nokey [] = (Inl KeyError, [])"
  by (simp add: discover_themes_def index_body_def getitem_def themes_fs_nokey_def themes_fs_eval)

section \<open>Properties of the CSS compilation\<close>

lemma for_each_fst_cong:
  assumes "\<And>x s o1 o2. x \<in> set xs \<Longrightarrow> fst (b1 x s o1) = fst (b2 x s o2)"
  shows "fst (for_each b1 xs s o1) = fst (for_each b2 xs s o2)"
  using assms
proof (induction xs arbitrary: s o1 o2)
  case Nil
  show ?case by simp
next
  case (Cons x xs)
  obtain r1 p1 where 1: "b1 x s o1 = (r1, p1)" by force
  obtain r2 p2 where 2: "b2 x s o2 = (r2, p2)" by force
  have "fst (b1 x s o1) = fst (b2 x s o2)" by (rule Cons.prems) simp
  with 1 2 have eq: "r1 = r2" by simp
  show ?case
  proof (cases r1)
    case (Inl e)
    with 1 2 eq have "b1 x s o1 = (Inl e, p1)" and "b2 x s o2 = (Inl e, p2)" by simp_all
    then show ?thesis by simp
  next
    case (Inr s')
    have rest: "fst (for_each b1 xs s' p1) = fst (for_each b2 xs s' p2)"
      by (rule Cons.IH) (rule Cons.prems, simp)
    from 1 2 eq Inr have "b1 x s o1 = (Inr s', p1)" and "b2 x s o2 = (Inr s', p2)" by simp_all
    with rest show ?thesis by simp
  qed
qed

lemma font_body_fst:
  "read_bytes fs1 (snd entry) = read_bytes fs2 (snd entry) \<Longrightarrow>
   fst (font_body fs1 lb entry st o1) = fst (font_body fs2 lb entry st o2)"
  by (cases entry) (simp add: font_body_def Let_def split: option.splits)

lemma font_loops_fst:
  assumes "\<forall>th \<in> set ths. \<forall>entry \<in> set (fonts th). read_bytes fs1 (snd entry) = read_bytes fs2 (snd entry)"
  shows "fst (for_each (\<lambda>th. for_each (font_body fs1 lb) (fonts th)) ths st o1) =
         fst (for_each (\<lambda>th. for_each (font_body fs2 lb) (fonts th)) ths st o2)"
proof (rule for_each_fst_cong)
  fix th s p1 p2
  assume th: "th \<in> set ths"
  show "fst (for_each (font_body fs1 lb) (fonts th) s p1) =
        fst (for_each (font_body fs2 lb) (fonts th) s p2)"
  proof (rule for_each_fst_cong)
    fix entry s' q1 q2
    assume "entry \<in> set (fonts th)"
    with th assms have "read_bytes fs1 (snd entry) = read_bytes fs2 (snd entry)" by blast
    then show "fst (font_body fs1 lb entry s' q1) = fst (font_body fs2 lb entry s' q2)"
      by (rule font_body_fst)
  qed
qed

lemma theme_body_cases:
  assumes "theme_body fs lb pre th m out = (Inr m', out')"
  shows "(path_exists fs (theme_index_path (int_name th)) \<and>
          (\<exists>txt. read_text fs (css th) = Some txt \<and>
                 m' = m(int_name th \<mapsto> th\<lparr>css := compress lb (pre @ txt)\<rparr>)))
       \<or> (\<not> path_exists fs (theme_index_path (int_name th)) \<and> m' = m)"
  using assms
  by (auto simp: theme_body_def theme_index_path_def Let_def split: if_splits option.splits)

lemma theme_body_agree:
  assumes css_same: "read_text fs1 (css th) = read_text fs2 (css th)"
    and 1: "theme_body fs1 lb pre th m1 o1 = (Inr m1', o1')"
    and 2: "theme_body fs2 lb pre th m2 o2 = (Inr m2', o2')"
    and inv: "registries_agree fs1 fs2 m1 m2"
  shows "registries_agree fs1 fs2 m1' m2'"
  using theme_body_cases [OF 1] theme_body_cases [OF 2] css_same inv
  unfolding registries_agree_def
  by (elim disjE conjE exE; simp; blast)

lemma theme_loop_agree:
  assumes "\<forall>th \<in> set ths. read_text fs1 (css th) = read_text fs2 (css th)"
    and "fst (for_each (theme_body fs1 lb pre) ths m1 o1) = Inr m1'"
    and "fst (for_each (theme_body fs2 lb pre) ths m2 o2) = Inr m2'"
    and "registries_agree fs1 fs2 m1 m2"
  shows "registries_agree fs1 fs2 m1' m2'"
  using assms
proof (induction ths arbitrary: m1 m2 o1 o2)
  case Nil
  then show ?case by simp
next
  case (Cons th ths)
  obtain r1 p1 where b1: "theme_body fs1 lb pre th m1 o1 = (r1, p1)" by force
  obtain r2 p2 where b2: "theme_body fs2 lb pre th m2 o2 = (r2, p2)" by force
  from Cons.prems(2) b1 obtain n1 where r1: "r1 = Inr n1"
    by (cases r1) simp_all
  from Cons.prems(3) b2 obtain n2 where r2: "r2 = Inr n2"
    by (cases r2) simp_all
  from Cons.prems(1) have css: "read_text fs1 (css th) = read_text fs2 (css th)" by simp
  have step: "registries_agree fs1 fs2 n1 n2"
    using css b1 [unfolded r1] b2 [unfolded r2] Cons.prems(4) by (rule theme_body_agree)
  show ?case
  proof (rule Cons.IH [OF _ _ _ step])
    show "\<forall>th \<in> set ths. read_text fs1 (css th) = read_text fs2 (css th)"
      using Cons.prems(1) by simp
    show "fst (for_each (theme_body fs1 lb pre) ths n1 p1) = Inr m1'"
      using Cons.prems(2) b1 r1 by simp
    show "fst (for_each (theme_body fs2 lb pre) ths n2 p2) = Inr m2'"
      using Cons.prems(3) b2 r2 by simp
  qed
qed

lemma registries_agree_empty: "registries_agree fs1 fs2 Map.empty Map.empty"
  by (simp add: registries_agree_def)

lemma compile_themes_Inr:
  assumes "fst (compile_themes fs lb jc ths out) = Inr registry"
  shows "\<exists>st out1 base.
      for_each (\<lambda>th. for_each (font_body fs lb) (fonts th)) ths
        \<lparr>themecss = [], fontfiletype = None\<rparr> out = (Inr st, out1)
      \<and> read_text fs (basecss jc) = Some base
      \<and> fst (for_each (theme_body fs lb (themecss st @ base)) ths Map.empty out1) = Inr registry"
  using assms unfolding compile_themes_def
  by (auto split: prod.splits sum.splits option.splits)

lemma theme_body_fst:
  assumes "path_exists fs1 (theme_index_path (int_name th)) = path_exists fs2 (theme_index_path (int_name th))"
    and "read_text fs1 (css th) = read_text fs2 (css th)"
  shows "fst (theme_body fs1 lb pre th m o1) = fst (theme_body fs2 lb pre th m o2)"
  using assms
  by (simp add: theme_body_def theme_index_path_def Let_def split: option.splits)

lemma compile_themes_same_result:
  assumes fonts_same:
      "\<forall>th \<in> set themeindices. \<forall>entry \<in> set (fonts th).
          read_bytes fs1 (snd entry) = read_bytes fs2 (snd entry)"
    and base_same: "read_text fs1 (basecss jc) = read_text fs2 (basecss jc)"
    and css_same: "\<forall>th \<in> set themeindices. read_text fs1 (css th) = read_text fs2 (css th)"
    and index_same:
      "\<forall>th \<in> set themeindices.
          path_exists fs1 (theme_index_path (int_name th)) =
          path_exists fs2 (theme_index_path (int_name th))"
  shows "fst (compile_themes fs1 lb jc themeindices out1) =
         fst (compile_themes fs2 lb jc themeindices out2)"
proof -
  let ?st0 = "\<lparr>themecss = [], fontfiletype = None\<rparr>"
  obtain r1 p1 where f1:
    "for_each (\<lambda>th. for_each (font_body fs1 lb) (fonts th)) themeindices ?st0 out1 = (r1, p1)"
    by force
  obtain r2 p2 where f2:
    "for_each (\<lambda>th. for_each (font_body fs2 lb) (fonts th)) themeindices ?st0 out2 = (r2, p2)"
    by force
  from font_loops_fst [OF fonts_same, of lb ?st0 out1 out2] f1 f2 have r: "r1 = r2" by simp
  show ?thesis
  proof (cases r1)
    case (Inl e)
    from f1 Inl have g1:
      "for_each (\<lambda>th. for_each (font_body fs1 lb) (fonts th)) themeindices ?st0 out1 = (Inl e, p1)"
      by simp
    from f2 r Inl have g2:
      "for_each (\<lambda>th. for_each (font_body fs2 lb) (fonts th)) themeindices ?st0 out2 = (Inl e, p2)"
      by simp
    show ?thesis by (simp add: compile_themes_def g1 g2)
  next
    case (Inr st)
    from f1 Inr have g1:
      "for_each (\<lambda>th. for_each (font_body fs1 lb) (fonts th)) themeindices ?st0 out1 = (Inr st, p1)"
      by simp
    from f2 r Inr have g2:
      "for_each (\<lambda>th. for_each (font_body fs2 lb) (fonts th)) themeindices ?st0 out2 = (Inr st, p2)"
      by simp
    show ?thesis
    proof (cases "read_text fs1 (basecss jc)")
      case None
      with base_same have "read_text fs2 (basecss jc) = None" by simp
      with None show ?thesis by (simp add: compile_themes_def g1 g2)
    next
      case (Some base)
      with base_same have b2: "read_text fs2 (basecss jc) = Some base" by simp
      have "fst (for_each (theme_body fs1 lb (themecss st @ base)) themeindices Map.empty p1) =
            fst (for_each (theme_body fs2 lb (themecss st @ base)) themeindices Map.empty p2)"
      proof (rule for_each_fst_cong)
        fix th m q1 q2
        assume "th \<in> set themeindices"
        with css_same index_same
        show "fst (theme_body fs1 lb (themecss st @ base) th m q1) =
              fst (theme_body fs2 lb (themecss st @ base) th m q2)"
          by (intro theme_body_fst) simp_all
      qed
      with Some b2 show ?thesis by (simp add: compile_themes_def g1 g2)
    qed
  qed
qed

lemmas compile_eval =
  compile_themes_def font_body_def theme_body_def font_face_def nl_def py_print_def

text \<open>
  Claim C7. Two runs of the CSS compile step over the same themes in the same order,
  reading the same font bytes, the same base stylesheet and the same theme
  stylesheets, give every theme that both runs emit the same \<open>css\<close> field, whatever
  else differs between the two file systems and whatever was printed before.
\<close>

theorem compile_themes_deterministic:
  assumes fonts_same:
      "\<forall>th \<in> set themeindices. \<forall>entry \<in> set (fonts th).
          read_bytes fs1 (snd entry) = read_bytes fs2 (snd entry)"
    and base_same: "read_text fs1 (basecss jc) = read_text fs2 (basecss jc)"
    and css_same: "\<forall>th \<in> set themeindices. read_text fs1 (css th) = read_text fs2 (css th)"
    and run1: "fst (compile_themes fs1 lb jc themeindices out1) = Inr themes1"
    and run2: "fst (compile_themes fs2 lb jc themeindices out2) = Inr themes2"
  shows "\<forall>k t1 t2. themes1 k = Some t1 \<and> themes2 k = Some t2 \<longrightarrow> css t1 = css t2"
proof -
  from compile_themes_Inr [OF run1] obtain st1 p1 base1 where
    f1: "for_each (\<lambda>th. for_each (font_body fs1 lb) (fonts th)) themeindices
        \<lparr>themecss = [], fontfiletype = None\<rparr> out1 = (Inr st1, p1)"
    and b1: "read_text fs1 (basecss jc) = Some base1"
    and l1: "fst (for_each (theme_body fs1 lb (themecss st1 @ base1)) themeindices Map.empty p1)
        = Inr themes1"
    by blast
  from compile_themes_Inr [OF run2] obtain st2 p2 base2 where
    f2: "for_each (\<lambda>th. for_each (font_body fs2 lb) (fonts th)) themeindices
        \<lparr>themecss = [], fontfiletype = None\<rparr> out2 = (Inr st2, p2)"
    and b2: "read_text fs2 (basecss jc) = Some base2"
    and l2: "fst (for_each (theme_body fs2 lb (themecss st2 @ base2)) themeindices Map.empty p2)
        = Inr themes2"
    by blast
  from font_loops_fst [OF fonts_same, of lb "\<lparr>themecss = [], fontfiletype = None\<rparr>" out1 out2] f1 f2
  have st: "st1 = st2" by simp
  from base_same b1 b2 have base: "base1 = base2" by simp
  have "registries_agree fs1 fs2 themes1 themes2"
    using css_same l1 l2 [folded st base] registries_agree_empty
    by (rule theme_loop_agree)
  then show ?thesis by (auto simp: registries_agree_def)
qed

theorem compile_themes_deterministic_witness:
  "\<exists>themes1 themes2 t1 t2.
     fst (compile_themes themes_fs sample_libraries sample_config [dark_theme] []) = Inr themes1
     \<and> fst (compile_themes themes_fs_later sample_libraries sample_config [dark_theme] [''x''])
         = Inr themes2
     \<and> themes1 ''dark'' = Some t1 \<and> themes2 ''dark'' = Some t2 \<and> css t1 = css t2
     \<and> css t1 = ''@font-face{font-family:Body;src:url(data:font/truetype;charset=utf-8;base64,QUJD)format('' @ [CHR 0x27] @ ''truetype'' @ [CHR 0x27] @ '');}body{margin:0}body{color:white}''"
proof -
  have 1: "\<exists>themes1 t1.
      fst (compile_themes themes_fs sample_libraries sample_config [dark_theme] []) = Inr themes1
      \<and> themes1 ''dark'' = Some t1
      \<and> css t1 = ''@font-face{font-family:Body;src:url(data:font/truetype;charset=utf-8;base64,QUJD)format('' @ [CHR 0x27] @ ''truetype'' @ [CHR 0x27] @ '');}body{margin:0}body{color:white}''"
    by (simp add: compile_eval themes_fs_eval)
  have 2: "\<exists>themes2 t2.
      fst (compile_themes themes_fs_later sample_libraries sample_config [dark_theme] [''x''])
        = Inr themes2
      \<and> themes2 ''dark'' = Some t2"
    by (simp add: compile_eval themes_fs_eval)
  from 1 obtain themes1 t1 where
    r1: "fst (compile_themes themes_fs sample_libraries sample_config [dark_theme] []) = Inr themes1"
    and k1: "themes1 ''dark'' = Some t1"
    and c1: "css t1 = ''@font-face{font-family:Body;src:url(data:font/truetype;charset=utf-8;base64,QUJD)format('' @ [CHR 0x27] @ ''truetype'' @ [CHR 0x27] @ '');}body{margin:0}body{color:white}''"
    by blast
  from 2 obtain themes2 t2 where
    r2: "fst (compile_themes themes_fs_later sample_libraries sample_config [dark_theme] [''x''])
        = Inr themes2"
    and k2: "themes2 ''dark'' = Some t2"
    by blast
  have fonts_same: "\<forall>th \<in> set [dark_theme]. \<forall>entry \<in> set (fonts th).
          read_bytes themes_fs (snd entry) = read_bytes themes_fs_later (snd entry)"
    by (simp add: themes_fs_eval)
  have base_same: "read_text themes_fs (basecss sample_config)
      = read_text themes_fs_later (basecss sample_config)"
    by (simp add: themes_fs_eval)
  have css_same: "\<forall>th \<in> set [dark_theme]. read_text themes_fs (css th) = read_text themes_fs_later (css th)"
    by (simp add: themes_fs_eval)
  from compile_themes_deterministic [OF fonts_same base_same css_same r1 r2] k1 k2
  have "css t1 = css t2" by blast
  with r1 r2 k1 k2 c1 show ?thesis by blast
qed

section \<open>Properties of csv2list\<close>

lemma dict_row_rectangular:
  "length row = length fieldnames \<Longrightarrow>
   dict_row fieldnames row = Map.empty(map Some fieldnames [\<mapsto>] map Text row)"
  by (simp add: dict_row_def)

lemma dict_rows_rectangular:
  "\<forall>row \<in> set rows. row \<noteq> [] \<longrightarrow> length row = length fieldnames \<Longrightarrow>
   dict_rows fieldnames rows =
     map (\<lambda>row. Map.empty(map Some fieldnames [\<mapsto>] map Text row)) (filter (\<lambda>row. row \<noteq> []) rows)"
  by (induction rows) (simp_all add: dict_row_rectangular)

lemma map_upds_dom_text:
  assumes "length row = length fieldnames"
  shows "dom (Map.empty(map Some fieldnames [\<mapsto>] map Text row)) = Some ` set fieldnames"
  using assms by simp

lemma map_upds_values_text:
  assumes "(Map.empty(map Some fieldnames [\<mapsto>] map Text row)) k = Some v"
  shows "\<exists>s \<in> set row. v = Text s"
proof -
  from assms have "map_of (rev (zip (map Some fieldnames) (map Text row))) k = Some v"
    by (simp add: map_upds_def)
  then have "(k, v) \<in> set (zip (map Some fieldnames) (map Text row))"
    by (auto dest: map_of_SomeD)
  then have "v \<in> set (map Text row)" by (rule set_zip_rightD)
  then show ?thesis by auto
qed

lemma dict_row_short:
  assumes "length row < length fieldnames" and "key \<in> set (drop (length row) fieldnames)"
  shows "dict_row fieldnames row (Some key) = Some PyNone"
proof -
  have fold_sets: "\<And>d. key \<in> set ks \<Longrightarrow>
      fold (\<lambda>key d. d(Some key \<mapsto> PyNone)) ks d (Some key) = Some PyNone" for ks :: "string list"
  proof (induction ks rule: rev_induct)
    case Nil
    then show ?case by simp
  next
    case (snoc k ks)
    then show ?case by (cases "key = k") auto
  qed
  from assms show ?thesis by (simp add: dict_row_def Let_def fold_sets)
qed

lemma dict_row_long:
  "length fieldnames < length row \<Longrightarrow>
   dict_row fieldnames row None = Some (Rest (drop (length fieldnames) row))"
  by (simp add: dict_row_def Let_def)

lemma DictReader_rows:
  "DictReader (fieldnames # rows) = map (dict_row fieldnames) (filter (\<lambda>row. row \<noteq> []) rows)"
  by (induction rows) (simp_all add: DictReader_def)

text \<open>
  Claim C8, as the code has it. For a readable file whose non-blank rows after the
  header have as many cells as the header, \<open>csv2list\<close> returns, in the file's order and
  without the blank rows, one mapping per row from the header names to the texts of the
  row's cells, nothing converted. The file with the header \<open>a,b\<close> and the row \<open>1,2\<close>
  gives the one mapping of \<open>a\<close> to \<open>1\<close> and \<open>b\<close> to \<open>2\<close>.
\<close>

theorem csv2list_rectangular:
  "(files path = Some (header # rows)
      \<and> (\<forall>row \<in> set rows. row \<noteq> [] \<longrightarrow> length row = length header) \<longrightarrow>
      csv2list files path =
        Inr (map (\<lambda>row. Map.empty(map Some header [\<mapsto>] map Text row))
               (filter (\<lambda>row. row \<noteq> []) rows))
      \<and> (\<forall>d \<in> set (DictReader (header # rows)).
            dom d = Some ` set header \<and> (\<forall>k v. d k = Some v \<longrightarrow> (\<exists>s. v = Text s))))
   \<and> (files path = Some [[''a'', ''b''], [''1'', ''2'']] \<longrightarrow>
      csv2list files path = Inr [[Some ''a'' \<mapsto> Text ''1'', Some ''b'' \<mapsto> Text ''2'']])"
proof (intro conjI impI ballI allI)
  assume a: "files path = Some (header # rows)
      \<and> (\<forall>row \<in> set rows. row \<noteq> [] \<longrightarrow> length row = length header)"
  then have rect: "\<forall>row \<in> set rows. row \<noteq> [] \<longrightarrow> length row = length header" by simp
  from a show "csv2list files path =
        Inr (map (\<lambda>row. Map.empty(map Some header [\<mapsto>] map Text row))
               (filter (\<lambda>row. row \<noteq> []) rows))"
    by (simp add: csv2list_def DictReader_def dict_rows_rectangular [OF rect])
  fix d
  assume "d \<in> set (DictReader (header # rows))"
  then obtain row where row: "row \<in> set rows" "row \<noteq> []"
    and d: "d = Map.empty(map Some header [\<mapsto>] map Text row)"
    by (auto simp: DictReader_def dict_rows_rectangular [OF rect])
  from row rect have len: "length row = length header" by simp
  from map_upds_dom_text [OF len] d show "dom d = Some ` set header" by simp
  fix k v
  assume "d k = Some v"
  with d map_upds_values_text [of header row k v] show "\<exists>s. v = Text s" by auto
next
  assume "files path = Some [[''a'', ''b''], [''1'', ''2'']]"
  then show "csv2list files path = Inr [[Some ''a'' \<mapsto> Text ''1'', Some ''b'' \<mapsto> Text ''2'']]"
    by (simp add: csv2list_def DictReader_def dict_row_def)
qed

theorem csv2list_rectangular_witness:
  "csv2list (\<lambda>p. if p = ''people.csv''
                  then Some [[''name'', ''age''], [''Ann'', ''31''], [], [''Bob'', ''7'']]
                  else None) ''people.csv''
     = Inr [[Some ''name'' \<mapsto> Text ''Ann'', Some ''age'' \<mapsto> Text ''31''],
            [Some ''name'' \<mapsto> Text ''Bob'', Some ''age'' \<mapsto> Text ''7'']]
   \<and> csv2list (\<lambda>p. if p = ''ab.csv'' then Some [[''a'', ''b''], [''1'', ''2'']] else None) ''ab.csv''
     = Inr [[Some ''a'' \<mapsto> Text ''1'', Some ''b'' \<mapsto> Text ''2'']]"
proof -
  let ?files = "\<lambda>p. if p = ''people.csv''
                  then Some [[''name'', ''age''], [''Ann'', ''31''], [], [''Bob'', ''7'']]
                  else None"
  let ?ab = "\<lambda>p. if p = ''ab.csv'' then Some [[''a'', ''b''], [''1'', ''2'']] else None"
  have p: "?files ''people.csv'' = Some ([''name'', ''age''] # [[''Ann'', ''31''], [], [''Bob'', ''7'']])
      \<and> (\<forall>row \<in> set [[''Ann'', ''31''], [], [''Bob'', ''7'']].
            row \<noteq> [] \<longrightarrow> length row = length [''name'', ''age''])"
    by simp
  have a: "csv2list ?files ''people.csv'' =
      Inr (map (\<lambda>row. Map.empty(map Some [''name'', ''age''] [\<mapsto>] map Text row))
             (filter (\<lambda>row. row \<noteq> []) [[''Ann'', ''31''], [], [''Bob'', ''7'']]))"
    using csv2list_rectangular [where files = ?files and path = "''people.csv''"
        and header = "[''name'', ''age'']" and rows = "[[''Ann'', ''31''], [], [''Bob'', ''7'']]"] p
    by blast
  have q: "?ab ''ab.csv'' = Some [[''a'', ''b''], [''1'', ''2'']]" by simp
  have b: "csv2list ?ab ''ab.csv'' = Inr [[Some ''a'' \<mapsto> Text ''1'', Some ''b'' \<mapsto> Text ''2'']]"
    using csv2list_rectangular [where files = ?ab and path = "''ab.csv''"] q
    by blast
  from a b show ?thesis by simp
qed

text \<open>
  Claim C8 as the specification words it covers every file with a header row. A row
  shorter than the header maps the missing names to \<open>None\<close>, and a longer row stores its
  surplus cells as a list under the key \<open>None\<close>: neither is a cell's text.
\<close>

theorem csv2list_short_row_has_None:
  "csv2list (\<lambda>p. if p = ''ragged.csv'' then Some [[''a'', ''b''], [''1'']] else None) ''ragged.csv''
     = Inr [[Some ''a'' \<mapsto> Text ''1'', Some ''b'' \<mapsto> PyNone]]
   \<and> csv2list (\<lambda>p. if p = ''ragged.csv'' then Some [[''a'', ''b''], [''1'', ''2'', ''3'']] else None)
       ''ragged.csv''
     = Inr [[Some ''a'' \<mapsto> Text ''1'', Some ''b'' \<mapsto> Text ''2'', None \<mapsto> Rest [''3'']]]"
  by (simp add: csv2list_def DictReader_def dict_row_def)

end
